theory Spec2Isabelle
  imports Complex_Main "HOL-Library.AList" "HOL-Library.Multiset" "HOL-Library.Product_Lexorder"
begin

section \<open>Data frames\<close>

text \<open>
  The repository works on pandas data frames. A frame is modelled column by column, as
  pandas stores it. The columns have the types of the repository's panel: \<open>region\<close> is a
  column of labels; every other column is a float64 column, whose cells are numbers or the
  missing value NaN. Numbers are rationals, so arithmetic is exact; NaN is \<open>None\<close>, and it
  also stands for the infinities a division by zero would give.
\<close>

type_synonym num = "rat option"

record frame =
  region_col :: "string list option"
  num_cols :: "(string \<times> num list) list"

datatype error =
  KeyError string | ValueError | TypeError | AttributeError | InvalidIndexError | FitError

definition bindE :: "error + 'a \<Rightarrow> ('a \<Rightarrow> error + 'b) \<Rightarrow> error + 'b" where
  "bindE m f = (case m of Inl e \<Rightarrow> Inl e | Inr x \<Rightarrow> f x)"

text \<open>\<open>c in df.columns\<close>\<close>

definition has_col :: "frame \<Rightarrow> string \<Rightarrow> bool" where
  "has_col df c =
     (if c = ''region'' then region_col df \<noteq> None else c \<in> set (map fst (num_cols df)))"

text \<open>\<open>df[c]\<close> for a numeric column and for the label column; a missing column raises KeyError.\<close>

definition get_num :: "frame \<Rightarrow> string \<Rightarrow> error + num list" where
  "get_num df c = (case map_of (num_cols df) c of None \<Rightarrow> Inl (KeyError c) | Some v \<Rightarrow> Inr v)"

definition get_region :: "frame \<Rightarrow> error + string list" where
  "get_region df = (case region_col df of None \<Rightarrow> Inl (KeyError ''region'') | Some r \<Rightarrow> Inr r)"

text \<open>\<open>df[c] = v\<close>: an existing column is replaced in place, a new one is appended.\<close>

definition set_num :: "string \<Rightarrow> num list \<Rightarrow> frame \<Rightarrow> frame" where
  "set_num c v df = df\<lparr>num_cols := AList.update c v (num_cols df)\<rparr>"

subsection \<open>Cell arithmetic\<close>

text \<open>Arithmetic on float64 cells: NaN propagates.\<close>

definition num_sub :: "num \<Rightarrow> num \<Rightarrow> num" where
  "num_sub a b = (case (a, b) of (Some x, Some y) \<Rightarrow> Some (x - y) | _ \<Rightarrow> None)"

definition num_mul :: "num \<Rightarrow> num \<Rightarrow> num" where
  "num_mul a b = (case (a, b) of (Some x, Some y) \<Rightarrow> Some (x * y) | _ \<Rightarrow> None)"

definition num_div :: "num \<Rightarrow> num \<Rightarrow> num" where
  "num_div a b =
     (case (a, b) of (Some x, Some y) \<Rightarrow> (if y = 0 then None else Some (x / y)) | _ \<Rightarrow> None)"

text \<open>Comparisons with NaN are false.\<close>

definition num_gt :: "num \<Rightarrow> num \<Rightarrow> bool" where
  "num_gt a b = (case (a, b) of (Some x, Some y) \<Rightarrow> x > y | _ \<Rightarrow> False)"

definition num_ge :: "num \<Rightarrow> num \<Rightarrow> bool" where
  "num_ge a b = (case (a, b) of (Some x, Some y) \<Rightarrow> x \<ge> y | _ \<Rightarrow> False)"

definition num_lt :: "num \<Rightarrow> num \<Rightarrow> bool" where
  "num_lt a b = (case (a, b) of (Some x, Some y) \<Rightarrow> x < y | _ \<Rightarrow> False)"

text \<open>\<open>astype(int)\<close> on a column of booleans.\<close>

definition of_bool_num :: "bool \<Rightarrow> num" where
  "of_bool_num b = Some (if b then 1 else 0)"

subsection \<open>Operations of pandas\<close>

text \<open>\<open>df[c] == k\<close>, a boolean mask, and \<open>xs.loc[mask]\<close>, the rows where the mask is true.\<close>

definition year_eq :: "num list \<Rightarrow> rat \<Rightarrow> bool list" where
  "year_eq ys k = map (\<lambda>y. y = Some k) ys"

definition loc :: "bool list \<Rightarrow> 'a list \<Rightarrow> 'a list" where
  "loc sel xs = map snd (filter fst (zip sel xs))"

text \<open>
  \<open>df.groupby("region")[c].diff()\<close>: each row minus the previous row of the same region, in
  frame order; the first row of a region has no previous row and gets NaN. \<open>prev\<close> holds
  the rows seen so far, the latest first, so that a lookup gives the last value of a region.
\<close>

fun group_diff :: "(string \<times> num) list \<Rightarrow> string list \<Rightarrow> num list \<Rightarrow> num list" where
  "group_diff prev (r # rs) (v # vs) =
     (case map_of prev r of None \<Rightarrow> None | Some p \<Rightarrow> num_sub v p)
       # group_diff ((r, v) # prev) rs vs"
| "group_diff prev _ _ = []"

text \<open>
  \<open>Series.median()\<close>: NaN cells are skipped; the middle of the sorted values, or the mean
  of the two middle values; NaN when no value is left.
\<close>

fun dropna :: "num list \<Rightarrow> rat list" where
  "dropna [] = []"
| "dropna (None # vs) = dropna vs"
| "dropna (Some x # vs) = x # dropna vs"

definition median :: "num list \<Rightarrow> num" where
  "median vs =
     (let xs = sort (dropna vs); n = length xs in
      if n = 0 then None
      else if odd n then Some (xs ! (n div 2))
      else Some ((xs ! (n div 2 - 1) + xs ! (n div 2)) / 2))"

text \<open>
  \<open>.astype(int)\<close> on the median, a numpy float64: a cast to int64. The fraction is cut
  off, towards zero. A value that has no int64, NaN or a number outside
  \<open>-2^63 .. 2^63 - 1\<close>, is not refused: the conversion of the processor (x86-64) gives
  the least int64, \<open>-2^63\<close>, and numpy only warns.
\<close>

definition int64_min :: int where
  "int64_min = - (2 ^ 63)"

definition int64_max :: int where
  "int64_max = 2 ^ 63 - 1"

definition astype_int :: "num \<Rightarrow> int" where
  "astype_int v =
     (case v of
        None \<Rightarrow> int64_min
      | Some q \<Rightarrow>
          (let t = (if q \<ge> 0 then \<lfloor>q\<rfloor> else \<lceil>q\<rceil>) in
           if int64_min \<le> t \<and> t \<le> int64_max then t else int64_min))"

text \<open>
  \<open>median().astype(int)\<close>. The median of a selection with no row is the Python float \<open>nan\<close>,
  which has no method \<open>astype\<close>: an AttributeError. The median of a selection with rows is
  a numpy float64, NaN when every cell is NaN.
\<close>

definition median_astype_int :: "num list \<Rightarrow> error + int" where
  "median_astype_int vs = (if vs = [] then Inl AttributeError else Inr (astype_int (median vs)))"

text \<open>\<open>d['treatment_intensity'] > threshold\<close>, a float64 cell against the int64 threshold.\<close>

definition gt_threshold :: "num \<Rightarrow> int \<Rightarrow> bool" where
  "gt_threshold v thr = num_gt v (Some (of_int thr))"

text \<open>
  \<open>keys.map(s)\<close> for a Series \<open>s\<close>, given as its (index, value) pairs: each key is looked up
  in the index, a key that is not there gives NaN. pandas refuses an index with duplicates
  (InvalidIndexError: Reindexing only valid with uniquely valued Index objects).
\<close>

definition series_map :: "string list \<Rightarrow> (string \<times> 'a) list \<Rightarrow> error + 'a option list" where
  "series_map keys s =
     (if distinct (map fst s) then Inr (map (map_of s) keys) else Inl InvalidIndexError)"

text \<open>\<open>.fillna(0).astype(int)\<close> on the mapped flags.\<close>

definition fillna0_int :: "bool option \<Rightarrow> num" where
  "fillna0_int m = (case m of None \<Rightarrow> Some 0 | Some b \<Rightarrow> of_bool_num b)"

section \<open>design.py\<close>

subsection \<open>add_crime_rate_if_missing\<close>

definition add_crime_rate_if_missing :: "frame \<Rightarrow> error + frame" where
  "add_crime_rate_if_missing panel =
     (let df = panel in
      if \<not> has_col df ''crime_rate_per_100k'' then
        bindE (get_num df ''total_cases'') (\<lambda>tc.
        bindE (get_num df ''population_total'') (\<lambda>pop.
          Inr (set_num ''crime_rate_per_100k''
                 (map2 (\<lambda>t p. num_mul (num_div t p) (Some 100000)) tc pop) df)))
      else Inr df)"

subsection \<open>add_treatment_variables\<close>

definition add_treatment_variables :: "frame \<Rightarrow> error + frame" where
  "add_treatment_variables panel =
     (let df = panel in
      bindE (get_region df) (\<lambda>region.
      bindE (get_num df ''foreigners_total'') (\<lambda>foreigners_total.
      let df = set_num ''treatment_intensity''
                 (group_diff [] region foreigners_total) df in
      bindE (get_num df ''year'') (\<lambda>year.
      bindE (get_num df ''treatment_intensity'') (\<lambda>treatment_intensity.
      let in2016 = year_eq year 2016 in
      bindE (median_astype_int (loc in2016 treatment_intensity)) (\<lambda>threshold.
      let treated_regions =
            zip (loc in2016 region)
                (map (\<lambda>t. gt_threshold t threshold) (loc in2016 treatment_intensity)) in
      bindE (series_map region treated_regions) (\<lambda>mapped.
      let treated = map fillna0_int mapped;
          df = set_num ''treated'' treated df;
          post = map (\<lambda>y. of_bool_num (num_ge y (Some 2016))) year;
          df = set_num ''post'' post df;
          df = set_num ''did'' (map2 num_mul treated post) df
      in Inr df)))))))"

subsection \<open>prepare_analysis_panel\<close>

definition prepare_analysis_panel :: "frame \<Rightarrow> error + frame" where
  "prepare_analysis_panel panel =
     (let df = panel in
      bindE (add_crime_rate_if_missing df) (\<lambda>df.
      bindE (add_treatment_variables df) (\<lambda>df. Inr df)))"

section \<open>models.py\<close>

text \<open>
  The regressions are estimated by statsmodels, which is not part of the repository: the
  estimator is a parameter \<open>ols\<close> of the functions that fit a model. It takes the formula and
  the data and gives the fitted model or fails. A fitted model has the Series \<open>params\<close>,
  \<open>bse\<close> and \<open>pvalues\<close> and the table \<open>conf_int()\<close>, all indexed by parameter name.
\<close>

record fit_result =
  params :: "(string \<times> num) list"
  bse :: "(string \<times> num) list"
  pvalues :: "(string \<times> num) list"
  conf_int :: "(string \<times> num \<times> num) list"


text \<open>\<open>s.get(k, default)\<close>\<close>

definition series_get :: "(string \<times> 'a) list \<Rightarrow> string \<Rightarrow> 'a \<Rightarrow> 'a" where
  "series_get s k d = (case map_of s k of None \<Rightarrow> d | Some v \<Rightarrow> v)"

text \<open>\<open>df[keep]\<close> for a boolean mask: the rows where the mask is true, of every column.\<close>

definition filter_rows :: "bool list \<Rightarrow> frame \<Rightarrow> frame" where
  "filter_rows keep df =
     \<lparr>region_col = map_option (loc keep) (region_col df),
      num_cols = map (\<lambda>(c, v). (c, loc keep v)) (num_cols df)\<rparr>"


subsection \<open>fit_pretrend_interaction\<close>



subsection \<open>run_did_with_threshold\<close>

text \<open>The frame \<open>df\<close> that run_did_with_threshold builds and hands to the estimator.\<close>

definition threshold_frame :: "frame \<Rightarrow> num \<Rightarrow> error + frame" where
  "threshold_frame panel threshold =
     (let df = panel in
      bindE (get_num df ''year'') (\<lambda>year.
      bindE (get_region df) (\<lambda>region.
      bindE (get_num df ''treatment_intensity'') (\<lambda>treatment_intensity.
      let in2016 = year_eq year 2016;
          ti_2016 = zip (loc in2016 region) (loc in2016 treatment_intensity);
          treated_regions_alt = map (\<lambda>(r, t). (r, of_bool_num (num_gt t threshold))) ti_2016 in
      bindE (series_map region treated_regions_alt) (\<lambda>mapped.
      let treated_alt = map (\<lambda>m. case m of None \<Rightarrow> Some 0 | Some v \<Rightarrow> v) mapped;
          df = set_num ''treated_alt'' treated_alt df in
      bindE (get_num df ''post'') (\<lambda>post.
      let df = set_num ''did_alt'' (map2 num_mul treated_alt post) df
      in Inr df))))))"


subsection \<open>run_threshold_grid\<close>

record grid_row =
  name :: string
  threshold :: num
  coef_did_alt :: num
  se_did_alt :: num
  pvalue_did_alt :: num



section \<open>plots.py\<close>

subsection \<open>compute_parallel_trends_data\<close>

text \<open>
  \<open>groupby(["year", "treated"], as_index=False)[outcome].mean()\<close>: one group for every pair
  (year, treated) that occurs in a row, rows with a missing key left out, the groups in
  ascending order of the pair; the mean of a group skips NaN and is NaN when nothing is left.
\<close>

definition group_keys :: "num list \<Rightarrow> num list \<Rightarrow> (rat \<times> rat) list" where
  "group_keys ys ts =
     sort (remdups (concat (map2 (\<lambda>y t. case (y, t) of (Some a, Some b) \<Rightarrow> [(a, b)] | _ \<Rightarrow> [])
                              ys ts)))"

definition group_values :: "rat \<times> rat \<Rightarrow> num list \<Rightarrow> num list \<Rightarrow> num list \<Rightarrow> num list" where
  "group_values k ys ts vs =
     map (\<lambda>(y, t, v). v)
       (filter (\<lambda>(y, t, v). y = Some (fst k) \<and> t = Some (snd k)) (zip ys (zip ts vs)))"

definition series_mean :: "num list \<Rightarrow> num" where
  "series_mean vs =
     (case dropna vs of [] \<Rightarrow> None | x # xs \<Rightarrow> Some (sum_list (x # xs) / of_nat (length (x # xs))))"

text \<open>
  The mean of the label column is a TypeError of pandas. The key columns are put in front of
  the means, except a key that is the outcome itself, whose column is already there.
\<close>

definition compute_parallel_trends_data :: "frame \<Rightarrow> string \<Rightarrow> error + frame" where
  "compute_parallel_trends_data panel outcome =
     (let missing = filter (\<lambda>c. \<not> has_col panel c) [''year'', ''treated'', outcome] in
      if missing \<noteq> [] then Inl ValueError
      else
        bindE (get_num panel ''year'') (\<lambda>year.
        bindE (get_num panel ''treated'') (\<lambda>treated.
        bindE (if outcome = ''region'' then Inl TypeError else get_num panel outcome) (\<lambda>vals.
        let keys = group_keys year treated;
            means = map (\<lambda>k. series_mean (group_values k year treated vals)) keys;
            grouped = \<lparr>region_col = None,
                       num_cols =
                         (if outcome = ''year'' then [] else [(''year'', map (\<lambda>k. Some (fst k)) keys)])
                         @ (if outcome = ''treated'' then []
                            else [(''treated'', map (\<lambda>k. Some (snd k)) keys)])
                         @ [(''mean'', means)]\<rparr>
        in Inr grouped))))"

subsection \<open>compute_treatment_intensity_distribution\<close>

text \<open>\<open>panel.loc[:, cols]\<close>: the listed columns, in the order of the list.\<close>

definition select_columns :: "string list \<Rightarrow> frame \<Rightarrow> frame" where
  "select_columns cols df =
     \<lparr>region_col = (if ''region'' \<in> set cols then region_col df else None),
      num_cols = concat (map (\<lambda>c. case map_of (num_cols df) c of
                                      None \<Rightarrow> [] | Some v \<Rightarrow> if c = ''region'' then [] else [(c, v)])
                             cols)\<rparr>"

text \<open>
  \<open>dropna(subset=[c])\<close> keeps the rows where column \<open>c\<close> is not NaN; labels are never missing.
\<close>

definition notna_mask :: "frame \<Rightarrow> string \<Rightarrow> nat \<Rightarrow> bool list" where
  "notna_mask df c n =
     (case map_of (num_cols df) c of
        None \<Rightarrow> replicate n True
      | Some v \<Rightarrow> map (\<lambda>x. x \<noteq> None) v)"

text \<open>
  The median of the selection is a number only for one numeric column: when the intensity
  column is the label column, or is selected twice (it is \<open>year\<close> or \<open>treated\<close>), \<open>float\<close> of
  the result is a TypeError.
\<close>

definition compute_treatment_intensity_distribution ::
  "frame \<Rightarrow> int \<Rightarrow> string \<Rightarrow> error + frame \<times> num" where
  "compute_treatment_intensity_distribution panel year intensity_col =
     (let missing = filter (\<lambda>c. \<not> has_col panel c) [''year'', intensity_col] in
      if missing \<noteq> [] then Inl ValueError
      else
        let cols = [''year'', intensity_col]
                   @ (if has_col panel ''region'' then [''region''] else [])
                   @ (if has_col panel ''treated'' then [''treated''] else []) in
        bindE (get_num panel ''year'') (\<lambda>years.
        let df_year = filter_rows (year_eq years (of_int year)) (select_columns cols panel);
            n = length (loc (year_eq years (of_int year)) years);
            df_year = filter_rows (notna_mask df_year intensity_col n) df_year in
        bindE (get_num df_year ''year'') (\<lambda>years_left.
        if years_left = [] then Inl ValueError
        else if intensity_col = ''region'' \<or> \<not> distinct cols then Inl TypeError
        else bindE (get_num df_year intensity_col) (\<lambda>v. Inr (df_year, median v)))))"

subsection \<open>build_event_study_table\<close>

text \<open>
  \<open>_EVENT_PATTERN.match(name)\<close> for the pattern
  \<^verbatim>\<open>C\(year, Treatment\(reference=\d+\)\)\[(?P<year>\d+)\]:treated\<close>.
  \<open>match\<close> anchors the pattern at the start of the name only, so any text may follow. Each
  \<^verbatim>\<open>\d+\<close> is followed by a character that is not a digit, so it takes all the digits there
  are. The result is the group \<open>year\<close>. Digits are the ASCII digits.
\<close>

definition is_digit :: "char \<Rightarrow> bool" where
  "is_digit c = (c \<in> set ''0123456789'')"

fun strip_prefix :: "string \<Rightarrow> string \<Rightarrow> string option" where
  "strip_prefix [] s = Some s"
| "strip_prefix (p # ps) [] = None"
| "strip_prefix (p # ps) (c # cs) = (if p = c then strip_prefix ps cs else None)"

definition event_pattern_match :: "string \<Rightarrow> string option" where
  "event_pattern_match s =
     (case strip_prefix ''C(year, Treatment(reference='' s of
        None \<Rightarrow> None
      | Some s1 \<Rightarrow>
          if takeWhile is_digit s1 = [] then None
          else (case strip_prefix ''))['' (dropWhile is_digit s1) of
                  None \<Rightarrow> None
                | Some s2 \<Rightarrow>
                    if takeWhile is_digit s2 = [] then None
                    else (case strip_prefix '']:treated'' (dropWhile is_digit s2) of
                            None \<Rightarrow> None
                          | Some rest \<Rightarrow> Some (takeWhile is_digit s2))))"

text \<open>\<open>int(digits)\<close>\<close>

definition digit_value :: "char \<Rightarrow> int" where
  "digit_value c = of_char c - 48"

definition int_of_digits :: "string \<Rightarrow> int" where
  "int_of_digits ds = foldl (\<lambda>n c. 10 * n + digit_value c) 0 ds"

text \<open>\<open>Series.round(3)\<close>: to three decimals, a tie to the even neighbour; NaN stays.\<close>

definition round_half_even :: "rat \<Rightarrow> int" where
  "round_half_even x =
     (let f = \<lfloor>x\<rfloor>; d = x - of_int f in
      if d < 1 / 2 then f else if d > 1 / 2 then f + 1 else if even f then f else f + 1)"

definition round3 :: "num \<Rightarrow> num" where
  "round3 v = (case v of None \<Rightarrow> None | Some q \<Rightarrow> Some (of_int (round_half_even (q * 1000)) / 1000))"

record event_row =
  year :: int
  rel_year :: int
  coef :: num
  se :: num
  pvalue :: num
  ci_low :: num
  ci_high :: num

text \<open>The loop over \<open>params.items()\<close>; \<open>rows\<close> is the list built so far.\<close>

fun event_rows_loop ::
  "fit_result \<Rightarrow> int \<Rightarrow> event_row list \<Rightarrow> (string \<times> num) list \<Rightarrow> event_row list" where
  "event_rows_loop event_model ref_year rows [] = rows"
| "event_rows_loop event_model ref_year rows ((nm, cf) # items) =
     (case event_pattern_match nm of
        None \<Rightarrow> event_rows_loop event_model ref_year rows items
      | Some digits \<Rightarrow>
          let y = int_of_digits digits;
              s = series_get (bse event_model) nm None;
              p = series_get (pvalues event_model) nm None;
              ci = (case map_of (conf_int event_model) nm of
                      Some (lo, hi) \<Rightarrow> (lo, hi) | None \<Rightarrow> (None, None))
          in event_rows_loop event_model ref_year
               (rows @ [\<lparr>year = y, rel_year = y - ref_year, coef = cf, se = s, pvalue = p,
                         ci_low = fst ci, ci_high = snd ci\<rparr>])
               items)"

text \<open>
  The reference row has no key \<open>pvalue\<close>, which \<open>concat\<close> fills with NaN. \<open>sort_values\<close> is
  modelled by a stable sort; pandas does not promise the order of rows with equal keys, and
  no property below depends on it.
\<close>

definition build_event_study_table :: "fit_result \<Rightarrow> int \<Rightarrow> error + event_row list" where
  "build_event_study_table event_model ref_year =
     (let rows = event_rows_loop event_model ref_year [] (params event_model) in
      if rows = [] then Inl ValueError
      else
        let df = rows;
            df = (if \<not> list_ex (\<lambda>r. year r = ref_year) df
                  then df @ [\<lparr>year = ref_year, rel_year = 0, coef = Some 0, se = None,
                              pvalue = None, ci_low = None, ci_high = None\<rparr>]
                  else df);
            df = sort_key rel_year df;
            df = map (\<lambda>r. r\<lparr>pvalue := round3 (pvalue r)\<rparr>) df
        in Inr df)"

section \<open>Auxiliary notions for the properties\<close>

text \<open>
  \<open>find_prev reg r i\<close> is the previous row of region \<open>r\<close> before row \<open>i\<close>: the greatest
  index below \<open>i\<close> whose label is \<open>r\<close>, if there is one.
\<close>

primrec find_prev :: "string list \<Rightarrow> string \<Rightarrow> nat \<Rightarrow> nat option" where
  "find_prev reg r 0 = None"
| "find_prev reg r (Suc j) = (if reg ! j = r then Some j else find_prev reg r j)"

text \<open>
  A small panel: three regions, the years 2015 and 2016. The number of foreigners falls by 2
  in region A and by 1 in region B; region C has no row for 2016.
\<close>

definition cx_region :: "string list" where
  "cx_region = [''A'', ''B'', ''A'', ''B'', ''C'']"

definition cx_year :: "num list" where
  "cx_year = [Some 2015, Some 2015, Some 2016, Some 2016, Some 2015]"

definition cx_foreigners :: "num list" where
  "cx_foreigners = [Some 10, Some 10, Some 8, Some 9, Some 7]"

definition cx_cases :: "num list" where
  "cx_cases = [Some 5, Some 6, Some 7, Some 8, Some 9]"

definition cx_population :: "num list" where
  "cx_population = [Some 1000, Some 2000, Some 1000, Some 2000, Some 3000]"

definition cx_panel :: frame where
  "cx_panel = \<lparr>region_col = Some cx_region,
      num_cols = [(''year'', cx_year),
                  (''foreigners_total'', cx_foreigners),
                  (''total_cases'', cx_cases),
                  (''population_total'', cx_population)]\<rparr>"

text \<open>
  A panel over three years where the number of foreigners grows: in 2016 by 1 in region A
  and by 4 in region B; region C has one row, for 2015.
\<close>

definition cx_inflow_region :: "string list" where
  "cx_inflow_region = [''A'', ''B'', ''A'', ''B'', ''A'', ''B'', ''C'']"

definition cx_inflow_year :: "num list" where
  "cx_inflow_year =
     [Some 2015, Some 2015, Some 2016, Some 2016, Some 2017, Some 2017, Some 2015]"

definition cx_inflow_foreigners :: "num list" where
  "cx_inflow_foreigners = [Some 10, Some 10, Some 11, Some 14, Some 15, Some 13, Some 7]"

definition cx_inflow_cases :: "num list" where
  "cx_inflow_cases = [Some 5, Some 6, Some 7, Some 8, Some 9, Some 10, Some 11]"

definition cx_inflow_population :: "num list" where
  "cx_inflow_population =
     [Some 1000, Some 2000, Some 1000, Some 2000, Some 1000, Some 2000, Some 4000]"

definition cx_inflow_panel :: frame where
  "cx_inflow_panel = \<lparr>region_col = Some cx_inflow_region,
      num_cols = [(''year'', cx_inflow_year),
                  (''foreigners_total'', cx_inflow_foreigners),
                  (''total_cases'', cx_inflow_cases),
                  (''population_total'', cx_inflow_population)]\<rparr>"

text \<open>
  Panels on which add_treatment_variables does not return: one that ends in 2015, one with
  two rows of 2016 for the same region, and one without the column year.
\<close>

definition cx_early_panel :: frame where
  "cx_early_panel = \<lparr>region_col = Some [''A'', ''B'', ''A'', ''B''],
      num_cols = [(''year'', [Some 2014, Some 2014, Some 2015, Some 2015]),
                  (''foreigners_total'', [Some 10, Some 10, Some 11, Some 14]),
                  (''total_cases'', [Some 5, Some 6, Some 7, Some 8]),
                  (''population_total'', [Some 1000, Some 2000, Some 1000, Some 2000])]\<rparr>"

definition cx_repeated_panel :: frame where
  "cx_repeated_panel = \<lparr>region_col = Some [''A'', ''A'', ''A''],
      num_cols = [(''year'', [Some 2015, Some 2016, Some 2016]),
                  (''foreigners_total'', [Some 10, Some 11, Some 12]),
                  (''total_cases'', [Some 5, Some 6, Some 7]),
                  (''population_total'', [Some 1000, Some 1000, Some 1000])]\<rparr>"

definition cx_no_year_panel :: frame where
  "cx_no_year_panel = \<lparr>region_col = Some [''A'', ''A''],
      num_cols = [(''foreigners_total'', [Some 10, Some 11])]\<rparr>"

text \<open>
  A panel whose numbers are too large for an int64: the intensities of 2016 are \<open>10^19\<close>
  (region A) and \<open>2 * 10^19\<close> (region B).
\<close>

definition cx_huge_panel :: frame where
  "cx_huge_panel = \<lparr>region_col = Some [''A'', ''A'', ''B'', ''B''],
      num_cols = [(''year'', [Some 2015, Some 2016, Some 2015, Some 2016]),
                  (''foreigners_total'',
                     [Some 0, Some 10000000000000000000, Some 0,
                      Some 20000000000000000000])]\<rparr>"

text \<open>
  A prepared panel for the models, with the columns treatment_intensity and post, where
  region C has no row for 2016; and a panel where post is missing in the row of region B,
  which has no row for 2016.
\<close>

definition cx_model_region :: "string list" where
  "cx_model_region = [''A'', ''B'', ''A'', ''B'', ''A'', ''B'', ''C'']"

definition cx_model_year :: "num list" where
  "cx_model_year = [Some 2014, Some 2014, Some 2015, Some 2015, Some 2016, Some 2016, Some 2015]"

definition cx_intensity :: "num list" where
  "cx_intensity = [None, None, Some 3, Some 1, Some 8, Some 2, None]"

definition cx_post :: "num list" where
  "cx_post = [Some 0, Some 0, Some 0, Some 0, Some 1, Some 1, Some 0]"

definition cx_model_panel :: frame where
  "cx_model_panel = \<lparr>region_col = Some cx_model_region,
      num_cols = [(''year'', cx_model_year),
                  (''treatment_intensity'', cx_intensity),
                  (''post'', cx_post)]\<rparr>"

definition cx_nan_post :: frame where
  "cx_nan_post = \<lparr>region_col = Some [''A'', ''B''],
      num_cols = [(''year'', [Some 2016, Some 2015]),
                  (''treatment_intensity'', [Some 5, None]),
                  (''post'', [Some 1, None])]\<rparr>"



text \<open>
  For the event-study table: the year parsed from a parameter name, the parameters whose
  name matches the pattern, the row the loop builds for one of them, and the reference row.
\<close>

definition parsed_year :: "string \<Rightarrow> int" where
  "parsed_year nm = (case event_pattern_match nm of None \<Rightarrow> 0 | Some digits \<Rightarrow> int_of_digits digits)"

definition matching_params :: "fit_result \<Rightarrow> (string \<times> num) list" where
  "matching_params m = filter (\<lambda>(nm, cf). event_pattern_match nm \<noteq> None) (params m)"

definition extracted_row :: "fit_result \<Rightarrow> int \<Rightarrow> string \<times> num \<Rightarrow> event_row" where
  "extracted_row m ref p =
     \<lparr>year = parsed_year (fst p), rel_year = parsed_year (fst p) - ref, coef = snd p,
      se = series_get (bse m) (fst p) None,
      pvalue = series_get (pvalues m) (fst p) None,
      ci_low = (case map_of (conf_int m) (fst p) of None \<Rightarrow> None | Some (lo, hi) \<Rightarrow> lo),
      ci_high = (case map_of (conf_int m) (fst p) of None \<Rightarrow> None | Some (lo, hi) \<Rightarrow> hi)\<rparr>"

definition reference_row :: "int \<Rightarrow> event_row" where
  "reference_row ref =
     \<lparr>year = ref, rel_year = 0, coef = Some 0, se = None, pvalue = None, ci_low = None,
      ci_high = None\<rparr>"

text \<open>
  A fitted event-study model with coefficients for 2014 and 2016 and none for the reference
  year 2015; and a model with a further interaction term, whose name also starts with the
  pattern, for the reference year itself.
\<close>

definition cx_event_model :: fit_result where
  "cx_event_model =
     \<lparr>params = [(''Intercept'', Some 50),
                (''C(year, Treatment(reference=2015))[T.2016]'', Some 3),
                (''C(year, Treatment(reference=2015))[2016]:treated'', Some 7),
                (''C(year, Treatment(reference=2015))[2014]:treated'', Some (- 1))],
      bse = [(''Intercept'', Some 5),
             (''C(year, Treatment(reference=2015))[T.2016]'', Some 1),
             (''C(year, Treatment(reference=2015))[2016]:treated'', Some 2),
             (''C(year, Treatment(reference=2015))[2014]:treated'', Some 3)],
      pvalues = [(''Intercept'', Some 0),
                 (''C(year, Treatment(reference=2015))[T.2016]'', Some (1 / 100)),
                 (''C(year, Treatment(reference=2015))[2016]:treated'', Some (12345 / 1000000)),
                 (''C(year, Treatment(reference=2015))[2014]:treated'', Some (7 / 10))],
      conf_int = [(''Intercept'', Some 40, Some 60),
                  (''C(year, Treatment(reference=2015))[T.2016]'', Some 1, Some 5),
                  (''C(year, Treatment(reference=2015))[2016]:treated'', Some 3, Some 11),
                  (''C(year, Treatment(reference=2015))[2014]:treated'', Some (- 7), Some 5)]\<rparr>"


text \<open>A panel for the parallel-trends table; the last outcome is missing.\<close>

definition cx_trends_panel :: frame where
  "cx_trends_panel =
     \<lparr>region_col = Some [''A'', ''B'', ''C'', ''C''],
      num_cols = [(''year'', [Some 2015, Some 2015, Some 2015, Some 2016]),
                  (''treated'', [Some 0, Some 0, Some 1, Some 1]),
                  (''crime_rate_per_100k'', [Some 10, Some 20, Some 30, None])]\<rparr>"

section \<open>Properties\<close>

subsection \<open>Frames, masks and grouped differences\<close>

lemma bindE_Inr [simp]: "bindE (Inr x) f = f x"
  by (simp add: bindE_def)

lemma bindE_Inl [simp]: "bindE (Inl e) f = Inl e"
  by (simp add: bindE_def)

lemma get_num_set_num [simp]:
  "get_num (set_num c v df) c' = (if c' = c then Inr v else get_num df c')"
  by (simp add: get_num_def set_num_def update_conv')

lemma get_region_set_num [simp]: "get_region (set_num c v df) = get_region df"
  by (simp add: get_region_def set_num_def)

lemma region_col_set_num [simp]: "region_col (set_num c v df) = region_col df"
  by (simp add: set_num_def)

lemma length_group_diff [simp]:
  "length (group_diff prev rs vs) = min (length rs) (length vs)"
  by (induction prev rs vs rule: group_diff.induct) simp_all

lemma find_prev_Cons:
  "find_prev (r # rs) x (Suc k) =
     (case find_prev rs x k of Some j \<Rightarrow> Some (Suc j) | None \<Rightarrow> if r = x then Some 0 else None)"
  by (induction k) auto

lemma group_diff_nth:
  "length rs = length vs \<Longrightarrow> i < length rs \<Longrightarrow>
   group_diff prev rs vs ! i =
     (case find_prev rs (rs ! i) i of
        None \<Rightarrow> (case map_of prev (rs ! i) of None \<Rightarrow> None | Some p \<Rightarrow> num_sub (vs ! i) p)
      | Some j \<Rightarrow> num_sub (vs ! i) (vs ! j))"
proof (induction rs vs arbitrary: prev i rule: list_induct2)
  case Nil
  then show ?case by simp
next
  case (Cons r rs v vs)
  show ?case
  proof (cases i)
    case 0
    then show ?thesis by (simp split: option.splits)
  next
    case (Suc k)
    with Cons.prems have k: "k < length rs" by simp
    show ?thesis
      using Cons.IH [OF k, of "(r, v) # prev"] Suc
      by (auto simp: find_prev_Cons simp del: find_prev.simps split: option.splits)
  qed
qed

lemma find_prev_None: "find_prev reg r i = None \<longleftrightarrow> (\<forall>j<i. reg ! j \<noteq> r)"
  by (induction i) (auto simp: less_Suc_eq)

lemma find_prev_Some:
  "find_prev reg r i = Some j \<longleftrightarrow> j < i \<and> reg ! j = r \<and> (\<forall>k. j < k \<and> k < i \<longrightarrow> reg ! k \<noteq> r)"
proof (induction i)
  case 0
  then show ?case by simp
next
  case (Suc i)
  show ?case
  proof (cases "reg ! i = r")
    case True
    then show ?thesis
      by (auto simp: less_Suc_eq)
  next
    case False
    then show ?thesis using Suc
      by (auto simp: less_Suc_eq)
  qed
qed

lemma loc_Nil [simp]: "loc [] xs = []" "loc m [] = []"
  by (simp_all add: loc_def)

lemma loc_Cons [simp]: "loc (b # m) (x # xs) = (if b then x # loc m xs else loc m xs)"
  by (simp add: loc_def)

lemma loc_zip: "length xs = length ys \<Longrightarrow> zip (loc m xs) (loc m ys) = loc m (zip xs ys)"
proof (induction xs ys arbitrary: m rule: list_induct2)
  case Nil
  then show ?case by simp
next
  case (Cons x xs y ys)
  then show ?case by (cases m) auto
qed

lemma loc_map: "loc m (map f xs) = map f (loc m xs)"
proof (induction xs arbitrary: m)
  case Nil
  then show ?case by simp
next
  case (Cons x xs)
  then show ?case by (cases m) auto
qed

lemma set_loc: "set (loc m xs) = {xs ! j | j. j < length xs \<and> j < length m \<and> m ! j}"
proof (induction xs arbitrary: m)
  case Nil
  then show ?case by simp
next
  case (Cons x xs)
  show ?case
  proof (cases m)
    case Nil
    then show ?thesis by simp
  next
    case (Cons b bs)
    have "{(x # xs) ! j | j. j < length (x # xs) \<and> j < length (b # bs) \<and> (b # bs) ! j}
        = (if b then {x} else {}) \<union> {xs ! j | j. j < length xs \<and> j < length bs \<and> bs ! j}"
      (is "?L = ?R")
    proof (intro set_eqI iffI)
      fix y assume "y \<in> ?L"
      then obtain j where j: "y = (x # xs) ! j" "j < length (x # xs)" "j < length (b # bs)"
        "(b # bs) ! j" by blast
      then show "y \<in> ?R" by (cases j) auto
    next
      fix y assume "y \<in> ?R"
      then consider "b" "y = x" | j where "y = xs ! j" "j < length xs" "j < length bs" "bs ! j"
        by (auto split: if_splits)
      then show "y \<in> ?L"
      proof cases
        case 1
        then show ?thesis by (auto intro: exI [of _ 0])
      next
        case 2
        then show ?thesis by (auto intro: exI [of _ "Suc j"])
      qed
    qed
    with Cons.IH [of bs] Cons show ?thesis by auto
  qed
qed


lemma loc_nonempty:
  assumes "length xs = length m" and "True \<in> set m"
  shows "loc m xs \<noteq> []"
proof -
  from assms(2) obtain j where j: "j < length m" "m ! j" by (auto simp: in_set_conv_nth)
  with assms(1) have "xs ! j \<in> set (loc m xs)" by (auto simp: set_loc)
  then show ?thesis by auto
qed

lemma series_lookup:
  assumes len: "length ti = length reg" and dist: "distinct (loc m reg)"
  shows "map_of (zip (loc m reg) (map f (loc m ti))) k = Some b \<longleftrightarrow>
      (\<exists>j<length reg. j < length m \<and> m ! j \<and> reg ! j = k \<and> f (ti ! j) = b)"
proof -
  let ?S = "loc m (zip reg (map f ti))"
  have S: "zip (loc m reg) (map f (loc m ti)) = ?S"
    using len by (simp add: loc_zip loc_map [symmetric])
  have fst_S: "map fst ?S = loc m reg"
    using len by (simp add: loc_map [symmetric])
  have mem: "(k, b) \<in> set ?S \<longleftrightarrow>
      (\<exists>j<length reg. j < length m \<and> m ! j \<and> reg ! j = k \<and> f (ti ! j) = b)"
  proof
    assume "(k, b) \<in> set ?S"
    then obtain j where "(k, b) = zip reg (map f ti) ! j" "j < length reg" "j < length m" "m ! j"
      using len by (auto simp: set_loc)
    with len show "\<exists>j<length reg. j < length m \<and> m ! j \<and> reg ! j = k \<and> f (ti ! j) = b"
      by auto
  next
    assume "\<exists>j<length reg. j < length m \<and> m ! j \<and> reg ! j = k \<and> f (ti ! j) = b"
    then obtain j where j: "j < length reg" "j < length m" "m ! j" "reg ! j = k" "f (ti ! j) = b"
      by blast
    with len have "(k, b) = zip reg (map f ti) ! j" by simp
    with j len have "\<exists>i. (k, b) = zip reg (map f ti) ! i \<and> i < length reg \<and> i < length m \<and> m ! i"
      by blast
    with len show "(k, b) \<in> set ?S"
      by (simp add: set_loc)
  qed
  have "map_of ?S k = Some b \<longleftrightarrow> (k, b) \<in> set ?S"
    using dist fst_S by (simp add: map_of_eq_Some_iff)
  with S mem show ?thesis by simp
qed

lemma treated_lookup:
  assumes len: "length ti = length reg" and dist: "distinct (loc m reg)"
  shows "fillna0_int (map_of (zip (loc m reg) (map f (loc m ti))) r)
       = of_bool_num (\<exists>j<length reg. j < length m \<and> m ! j \<and> reg ! j = r \<and> f (ti ! j))"
proof -
  let ?S = "zip (loc m reg) (map f (loc m ti))"
  note lookup = series_lookup [OF len dist, of f]
  show ?thesis
  proof (cases "map_of ?S r")
    case None
    then have "\<not> (\<exists>j<length reg. j < length m \<and> m ! j \<and> reg ! j = r \<and> f (ti ! j) = True)"
      using lookup [of r True] by simp
    with None show ?thesis by (simp add: fillna0_int_def of_bool_num_def)
  next
    case (Some b)
    have "(\<exists>j<length reg. j < length m \<and> m ! j \<and> reg ! j = r \<and> f (ti ! j)) \<longleftrightarrow> b"
      using Some lookup [of r True] lookup [of r b] by auto
    with Some show ?thesis by (simp add: fillna0_int_def)
  qed
qed

lemma year_eq_nth [simp]: "j < length yr \<Longrightarrow> year_eq yr k ! j \<longleftrightarrow> yr ! j = Some k"
  by (simp add: year_eq_def)

lemma length_year_eq [simp]: "length (year_eq yr k) = length yr"
  by (simp add: year_eq_def)

lemma add_treatment_variables_result:
  assumes reg: "region_col panel = Some reg"
    and ft: "get_num panel ''foreigners_total'' = Inr ft"
    and yr: "get_num panel ''year'' = Inr yr"
    and len: "length ft = length reg" "length yr = length reg"
    and dist: "distinct (loc (year_eq yr 2016) reg)"
    and some: "Some 2016 \<in> set yr"
  shows "\<exists>out. add_treatment_variables panel = Inr out
      \<and> region_col out = Some reg
      \<and> get_num out ''year'' = Inr yr
      \<and> get_num out ''treatment_intensity'' = Inr (group_diff [] reg ft)
      \<and> get_num out ''treated'' =
          Inr (map (\<lambda>r. of_bool_num (\<exists>j<length reg. reg ! j = r \<and> yr ! j = Some 2016 \<and>
                  gt_threshold (group_diff [] reg ft ! j)
                    (astype_int (median (loc (year_eq yr 2016) (group_diff [] reg ft))))))
                reg)
      \<and> get_num out ''post'' = Inr (map (\<lambda>y. of_bool_num (num_ge y (Some 2016))) yr)
      \<and> get_num out ''did'' =
          Inr (map2 num_mul
                (map (\<lambda>r. of_bool_num (\<exists>j<length reg. reg ! j = r \<and> yr ! j = Some 2016 \<and>
                  gt_threshold (group_diff [] reg ft ! j)
                    (astype_int (median (loc (year_eq yr 2016) (group_diff [] reg ft))))))
                  reg)
                (map (\<lambda>y. of_bool_num (num_ge y (Some 2016))) yr))"
proof -
  let ?ti = "group_diff [] reg ft"
  let ?m = "year_eq yr 2016"
  let ?thr = "astype_int (median (loc ?m ?ti))"
  let ?S = "zip (loc ?m reg) (map (\<lambda>t. gt_threshold t ?thr) (loc ?m ?ti))"
  have lti: "length ?ti = length reg" using len by simp
  have dS: "distinct (map fst ?S)"
    using lti dist by (simp add: loc_zip loc_map [symmetric])
  have tr: "fillna0_int (map_of ?S r)
      = of_bool_num (\<exists>j<length reg. reg ! j = r \<and> yr ! j = Some 2016 \<and> gt_threshold (?ti ! j) ?thr)"
    for r
    using treated_lookup [OF lti dist, of "\<lambda>t. gt_threshold t ?thr" r] len
    by (auto intro!: arg_cong [where f = of_bool_num])
  have greg: "get_region panel = Inr reg" using reg by (simp add: get_region_def)
  have rows: "loc ?m ?ti \<noteq> []"
    using some lti len by (intro loc_nonempty) (auto simp: year_eq_def)
  show ?thesis
    using greg ft yr dS reg rows
    by (simp add: add_treatment_variables_def median_astype_int_def series_map_def Let_def tr
        o_def)
qed

subsection \<open>add_crime_rate_if_missing\<close>

lemma has_col_set_num:
  "c \<noteq> ''region'' \<Longrightarrow> has_col (set_num c v df) c"
  by (simp add: has_col_def set_num_def dom_update)

text \<open>
  C8. add_crime_rate_if_missing is idempotent: applying it to its own result gives that
  result again (an error of the first application is the error of both), and a panel that
  already has the column crime_rate_per_100k is returned as it is.
\<close>

theorem add_crime_rate_if_missing_idempotent:
  "bindE (add_crime_rate_if_missing panel) add_crime_rate_if_missing
     = add_crime_rate_if_missing panel
   \<and> (has_col panel ''crime_rate_per_100k'' \<longrightarrow> add_crime_rate_if_missing panel = Inr panel)"
proof -
  have present: "has_col df ''crime_rate_per_100k'' \<Longrightarrow> add_crime_rate_if_missing df = Inr df"
    for df
    by (simp add: add_crime_rate_if_missing_def)
  have "bindE (add_crime_rate_if_missing panel) add_crime_rate_if_missing
          = add_crime_rate_if_missing panel"
  proof (cases "add_crime_rate_if_missing panel")
    case (Inl e)
    then show ?thesis by (simp add: bindE_def)
  next
    case (Inr out)
    have "has_col out ''crime_rate_per_100k''"
    proof (cases "has_col panel ''crime_rate_per_100k''")
      case True
      with Inr present [of panel] show ?thesis by simp
    next
      case False
      with Inr show ?thesis
        by (auto simp: add_crime_rate_if_missing_def bindE_def has_col_set_num
                 split: sum.splits)
    qed
    with Inr present [of out] show ?thesis by (simp add: bindE_def)
  qed
  with present show ?thesis by blast
qed

theorem add_crime_rate_if_missing_idempotent_witness:
  "has_col \<lparr>region_col = None, num_cols = [(''crime_rate_per_100k'', [Some 5])]\<rparr>
     ''crime_rate_per_100k''
   \<and> add_crime_rate_if_missing
       \<lparr>region_col = None, num_cols = [(''crime_rate_per_100k'', [Some 5])]\<rparr>
     = Inr \<lparr>region_col = None, num_cols = [(''crime_rate_per_100k'', [Some 5])]\<rparr>"
  using add_crime_rate_if_missing_idempotent
    [of "\<lparr>region_col = None, num_cols = [(''crime_rate_per_100k'', [Some 5])]\<rparr>"]
  by (simp add: has_col_def)

subsection \<open>add_treatment_variables\<close>

lemma group_diff_first_difference:
  assumes "length ft = length reg" and "i < length reg"
  shows "((\<forall>j<i. reg ! j \<noteq> reg ! i) \<longrightarrow> group_diff [] reg ft ! i = None)
       \<and> (\<forall>j<i. reg ! j = reg ! i \<and> (\<forall>k. j < k \<and> k < i \<longrightarrow> reg ! k \<noteq> reg ! i)
              \<longrightarrow> group_diff [] reg ft ! i = num_sub (ft ! i) (ft ! j))"
proof -
  have nth: "group_diff [] reg ft ! i =
      (case find_prev reg (reg ! i) i of None \<Rightarrow> None | Some j \<Rightarrow> num_sub (ft ! i) (ft ! j))"
    using group_diff_nth [of reg ft i "[]"] assms by (simp split: option.splits)
  have none: "(\<forall>j<i. reg ! j \<noteq> reg ! i) \<Longrightarrow> find_prev reg (reg ! i) i = None"
    by (simp add: find_prev_None)
  have some: "j < i \<Longrightarrow> reg ! j = reg ! i \<Longrightarrow> (\<forall>k. j < k \<and> k < i \<longrightarrow> reg ! k \<noteq> reg ! i)
      \<Longrightarrow> find_prev reg (reg ! i) i = Some j" for j
    by (simp add: find_prev_Some)
  show ?thesis using nth none some by auto
qed

lemma cx_panel_cols:
  "region_col cx_panel = Some cx_region"
  "get_num cx_panel ''foreigners_total'' = Inr cx_foreigners"
  "get_num cx_panel ''year'' = Inr cx_year"
  "length cx_foreigners = length cx_region"
  "length cx_year = length cx_region"
  "distinct (loc (year_eq cx_year 2016) cx_region)"
  "Some 2016 \<in> set cx_year"
  by (simp_all add: cx_panel_def get_num_def year_eq_def cx_region_def cx_year_def
      cx_foreigners_def)

lemma cx_inflow_panel_cols:
  "region_col cx_inflow_panel = Some cx_inflow_region"
  "get_num cx_inflow_panel ''foreigners_total'' = Inr cx_inflow_foreigners"
  "get_num cx_inflow_panel ''year'' = Inr cx_inflow_year"
  "length cx_inflow_foreigners = length cx_inflow_region"
  "length cx_inflow_year = length cx_inflow_region"
  "distinct (loc (year_eq cx_inflow_year 2016) cx_inflow_region)"
  "Some 2016 \<in> set cx_inflow_year"
  by (simp_all add: cx_inflow_panel_def get_num_def year_eq_def cx_inflow_region_def
      cx_inflow_year_def cx_inflow_foreigners_def)

lemma cx_inflow_panel_cases:
  "get_num cx_inflow_panel ''total_cases'' = Inr cx_inflow_cases"
  "get_num cx_inflow_panel ''population_total'' = Inr cx_inflow_population"
  by (simp_all add: cx_inflow_panel_def get_num_def)

text \<open>
  C4, as stated, fails: the columns region and foreigners_total are not enough for
  add_treatment_variables to compute anything. A panel without the column year raises
  KeyError after the difference is taken; a panel with no row of 2016 raises AttributeError
  (the median of no rows is a Python float, which has no \<open>astype\<close>); a panel with two
  rows of 2016 for one region raises InvalidIndexError in \<open>map\<close>.
\<close>

theorem treatment_intensity_raises_counterexample:
  "has_col cx_no_year_panel ''region'' \<and> has_col cx_no_year_panel ''foreigners_total''
   \<and> add_treatment_variables cx_no_year_panel = Inl (KeyError ''year'')
   \<and> add_treatment_variables cx_early_panel = Inl AttributeError
   \<and> add_treatment_variables cx_repeated_panel = Inl InvalidIndexError"
  by (simp add: add_treatment_variables_def cx_no_year_panel_def cx_early_panel_def
      cx_repeated_panel_def has_col_def get_region_def get_num_def set_num_def year_eq_def
      median_astype_int_def series_map_def Let_def)

lemma num_sub_cases:
  "num_sub x y = None \<longleftrightarrow> x = None \<or> y = None"
  "num_sub (Some a) (Some b) = Some (a - b)"
  by (simp_all add: num_sub_def split: option.splits)

text \<open>
  C4, amended. For a panel with the columns year, region and foreigners_total, with a row
  of 2016 and at most one per region, add_treatment_variables returns, and
  treatment_intensity is the first difference of foreigners_total within each region: a row
  with no earlier row of its region gets the missing value, and every other row gets its
  foreigners_total minus the foreigners_total of the previous row of the same region (row
  \<open>j\<close>, the last one before it), which is missing when one of the two is.
\<close>

theorem treatment_intensity_first_difference:
  assumes "region_col panel = Some reg"
    and "get_num panel ''foreigners_total'' = Inr ft"
    and "get_num panel ''year'' = Inr yr"
    and "length ft = length reg" and "length yr = length reg"
    and "distinct (loc (year_eq yr 2016) reg)"
    and "Some 2016 \<in> set yr"
  shows "\<exists>out ti. add_treatment_variables panel = Inr out
      \<and> get_num out ''treatment_intensity'' = Inr ti \<and> length ti = length reg
      \<and> (\<forall>i<length reg.
           ((\<forall>j<i. reg ! j \<noteq> reg ! i) \<longrightarrow> ti ! i = None)
         \<and> (\<forall>j<i. reg ! j = reg ! i \<and> (\<forall>k. j < k \<and> k < i \<longrightarrow> reg ! k \<noteq> reg ! i)
                \<longrightarrow> (\<forall>a b. ft ! i = Some a \<and> ft ! j = Some b \<longrightarrow> ti ! i = Some (a - b))
                  \<and> (ft ! i = None \<or> ft ! j = None \<longrightarrow> ti ! i = None)))"
proof -
  obtain out where out: "add_treatment_variables panel = Inr out"
    "get_num out ''treatment_intensity'' = Inr (group_diff [] reg ft)"
    using add_treatment_variables_result [OF assms] by blast
  have len: "length (group_diff [] reg ft) = length reg" using assms(4) by simp
  have rows: "\<forall>i<length reg.
           ((\<forall>j<i. reg ! j \<noteq> reg ! i) \<longrightarrow> group_diff [] reg ft ! i = None)
         \<and> (\<forall>j<i. reg ! j = reg ! i \<and> (\<forall>k. j < k \<and> k < i \<longrightarrow> reg ! k \<noteq> reg ! i)
                \<longrightarrow> (\<forall>a b. ft ! i = Some a \<and> ft ! j = Some b
                        \<longrightarrow> group_diff [] reg ft ! i = Some (a - b))
                  \<and> (ft ! i = None \<or> ft ! j = None \<longrightarrow> group_diff [] reg ft ! i = None))"
    using group_diff_first_difference [OF assms(4)] by (auto simp: num_sub_cases)
  from out len rows show ?thesis by blast
qed

theorem treatment_intensity_first_difference_witness:
  "region_col cx_inflow_panel = Some cx_inflow_region
   \<and> get_num cx_inflow_panel ''foreigners_total'' = Inr cx_inflow_foreigners
   \<and> get_num cx_inflow_panel ''year'' = Inr cx_inflow_year
   \<and> length cx_inflow_foreigners = length cx_inflow_region
   \<and> length cx_inflow_year = length cx_inflow_region
   \<and> distinct (loc (year_eq cx_inflow_year 2016) cx_inflow_region)
   \<and> Some 2016 \<in> set cx_inflow_year
   \<and> (\<exists>out. add_treatment_variables cx_inflow_panel = Inr out
        \<and> get_num out ''treatment_intensity''
            = Inr [None, None, Some 1, Some 4, Some 4, Some (- 1), None])"
proof -
  obtain out ti where out: "add_treatment_variables cx_inflow_panel = Inr out"
    "get_num out ''treatment_intensity'' = Inr ti" "length ti = length cx_inflow_region"
    and rows: "\<forall>i<length cx_inflow_region.
           ((\<forall>j<i. cx_inflow_region ! j \<noteq> cx_inflow_region ! i) \<longrightarrow> ti ! i = None)
         \<and> (\<forall>j<i. cx_inflow_region ! j = cx_inflow_region ! i
                 \<and> (\<forall>k. j < k \<and> k < i \<longrightarrow> cx_inflow_region ! k \<noteq> cx_inflow_region ! i)
                \<longrightarrow> (\<forall>a b. cx_inflow_foreigners ! i = Some a \<and> cx_inflow_foreigners ! j = Some b
                        \<longrightarrow> ti ! i = Some (a - b))
                  \<and> (cx_inflow_foreigners ! i = None \<or> cx_inflow_foreigners ! j = None
                        \<longrightarrow> ti ! i = None))"
    using treatment_intensity_first_difference [OF cx_inflow_panel_cols] by blast
  have first: "ti ! i = None"
    if "i < 7" "\<forall>j<i. cx_inflow_region ! j \<noteq> cx_inflow_region ! i" for i
    using rows that by (simp add: cx_inflow_region_def)
  have later: "ti ! i = Some (a - b)"
    if "i < 7" "j < i" "cx_inflow_region ! j = cx_inflow_region ! i"
      "\<forall>k. j < k \<and> k < i \<longrightarrow> cx_inflow_region ! k \<noteq> cx_inflow_region ! i"
      "cx_inflow_foreigners ! i = Some a" "cx_inflow_foreigners ! j = Some b" for i j a b
  proof -
    from that(1) have "i < length cx_inflow_region" by (simp add: cx_inflow_region_def)
    with rows that(2-) show ?thesis by blast
  qed
  have between: "(\<forall>k. j < k \<and> k < Suc (Suc j) \<longrightarrow> P k) \<longleftrightarrow> P (Suc j)" for j :: nat and P
    by (metis Suc_lessI lessI not_less_eq)
  have t0: "ti ! 0 = None" using first [of 0] by simp
  have t1: "ti ! 1 = None" using first [of 1] by (simp add: cx_inflow_region_def)
  have t2: "ti ! 2 = Some 1"
    using later [of 2 0 11 10]
    by (simp add: cx_inflow_region_def cx_inflow_foreigners_def numeral_2_eq_2 between)
  have t3: "ti ! 3 = Some 4"
    using later [of 3 1 14 10]
    by (simp add: cx_inflow_region_def cx_inflow_foreigners_def numeral_3_eq_3 between)
  have t4: "ti ! 4 = Some 4"
    using later [of 4 2 15 11]
    by (simp add: cx_inflow_region_def cx_inflow_foreigners_def eval_nat_numeral between)
  have t5: "ti ! 5 = Some (- 1)"
    using later [of 5 3 13 14]
    by (simp add: cx_inflow_region_def cx_inflow_foreigners_def eval_nat_numeral between)
  have t6: "ti ! 6 = None"
    using first [of 6] by (simp add: cx_inflow_region_def eval_nat_numeral All_less_Suc)
  have "length ti = 7" using out(3) by (simp add: cx_inflow_region_def)
  then have "ti = [ti ! 0, ti ! 1, ti ! 2, ti ! 3, ti ! 4, ti ! 5, ti ! 6]"
    by (auto simp: list_eq_iff_nth_eq less_Suc_eq eval_nat_numeral)
  with t0 t1 t2 t3 t4 t5 t6 have "ti = [None, None, Some 1, Some 4, Some 4, Some (- 1), None]"
    by simp
  with out cx_inflow_panel_cols show ?thesis by blast
qed

lemma cx_casts:
  "astype_int (Some (- (3 / 2))) = - 1"
  "astype_int (Some (5 / 2)) = 2"
proof -
  have "\<lceil>- (3 / 2) :: rat\<rceil> = - 1" by (simp add: ceiling_eq_iff)
  then show "astype_int (Some (- (3 / 2))) = - 1"
    by (simp add: astype_int_def int64_min_def int64_max_def Let_def)
  have "\<lfloor>5 / 2 :: rat\<rfloor> = 2" by (simp add: floor_eq_iff)
  then show "astype_int (Some (5 / 2)) = 2"
    by (simp add: astype_int_def int64_min_def int64_max_def Let_def)
qed

text \<open>
  C1. The claim, like the docstring of add_treatment_variables, has a region treated when
  its intensity of 2016 is above the median of the intensities of 2016. The code compares
  with \<open>median().astype(int)\<close> instead. In the small panel the intensities of 2016 are \<open>-2\<close>
  (region A) and \<open>-1\<close> (region B); their median is \<open>-3/2\<close>, and the intensity of B is
  strictly above it, yet B is not treated: the cast takes the threshold to \<open>-1\<close>.
\<close>

theorem add_treatment_variables_truncated_median:
  "add_treatment_variables cx_panel =
     Inr \<lparr>region_col = Some [''A'', ''B'', ''A'', ''B'', ''C''],
          num_cols = [(''year'', [Some 2015, Some 2015, Some 2016, Some 2016, Some 2015]),
                      (''foreigners_total'', [Some 10, Some 10, Some 8, Some 9, Some 7]),
                      (''total_cases'', cx_cases),
                      (''population_total'', cx_population),
                      (''treatment_intensity'', [None, None, Some (- 2), Some (- 1), None]),
                      (''treated'', [Some 0, Some 0, Some 0, Some 0, Some 0]),
                      (''post'', [Some 0, Some 0, Some 1, Some 1, Some 0]),
                      (''did'', [Some 0, Some 0, Some 0, Some 0, Some 0])]\<rparr>
   \<and> median (loc (year_eq cx_year 2016) [None, None, Some (- 2), Some (- 1), None])
       = Some (- 3 / 2)
   \<and> astype_int (Some (- 3 / 2)) = - 1
   \<and> (- 3 / 2 :: rat) < - 1"
  by (simp add: add_treatment_variables_def cx_panel_def cx_region_def cx_year_def
      cx_foreigners_def get_region_def get_num_def set_num_def
      year_eq_def median_def cx_casts median_astype_int_def
      series_map_def gt_threshold_def fillna0_int_def
      num_sub_def num_gt_def num_ge_def num_mul_def of_bool_num_def Let_def)

text \<open>
  The cast is to int64. With intensities of \<open>10^19\<close> and \<open>2 * 10^19\<close> in 2016 the median,
  \<open>1.5 * 10^19\<close>, has no int64; the threshold is the least int64 and both regions are
  treated, the one below the median too.
\<close>

lemma astype_int_out_of_range:
  "astype_int (Some 15000000000000000000) = - 9223372036854775808"
  "astype_int None = - 9223372036854775808"
  "astype_int (Some 9223372036854775808) = - 9223372036854775808"
  "astype_int (Some 9223372036854774784) = 9223372036854774784"
  by (simp_all add: astype_int_def int64_min_def int64_max_def Let_def)

lemma add_treatment_variables_int64_threshold:
  "\<exists>out. add_treatment_variables cx_huge_panel = Inr out
     \<and> get_num out ''treatment_intensity''
         = Inr [None, Some 10000000000000000000, None, Some 20000000000000000000]
     \<and> get_num out ''treated'' = Inr [Some 1, Some 1, Some 1, Some 1]"
  by (simp add: add_treatment_variables_def cx_huge_panel_def get_region_def get_num_def
      set_num_def year_eq_def median_def astype_int_def int64_min_def int64_max_def
      median_astype_int_def series_map_def gt_threshold_def fillna0_int_def
      num_sub_def num_gt_def num_ge_def num_mul_def of_bool_num_def Let_def)

subsection \<open>prepare_analysis_panel\<close>

lemma add_crime_rate_if_missing_result:
  assumes "get_num panel ''total_cases'' = Inr tc"
    and "get_num panel ''population_total'' = Inr pop"
  shows "\<exists>df. add_crime_rate_if_missing panel = Inr df \<and> region_col df = region_col panel
      \<and> (\<forall>c. c \<noteq> ''crime_rate_per_100k'' \<longrightarrow> get_num df c = get_num panel c)"
  using assms by (simp add: add_crime_rate_if_missing_def)

text \<open>
  C3, as stated, fails: a panel with the five columns is not enough for
  prepare_analysis_panel to return. On a panel that ends in 2015 it raises AttributeError,
  and on a panel with two rows of 2016 for one region it raises InvalidIndexError.
\<close>

theorem prepare_analysis_panel_raises_counterexample:
  "has_col cx_early_panel ''year'' \<and> has_col cx_early_panel ''region''
   \<and> has_col cx_early_panel ''foreigners_total'' \<and> has_col cx_early_panel ''total_cases''
   \<and> has_col cx_early_panel ''population_total''
   \<and> prepare_analysis_panel cx_early_panel = Inl AttributeError
   \<and> has_col cx_repeated_panel ''year'' \<and> has_col cx_repeated_panel ''region''
   \<and> has_col cx_repeated_panel ''foreigners_total'' \<and> has_col cx_repeated_panel ''total_cases''
   \<and> has_col cx_repeated_panel ''population_total''
   \<and> prepare_analysis_panel cx_repeated_panel = Inl InvalidIndexError"
  by (simp add: prepare_analysis_panel_def add_crime_rate_if_missing_def
      add_treatment_variables_def cx_early_panel_def cx_repeated_panel_def has_col_def
      get_region_def get_num_def set_num_def year_eq_def
      median_astype_int_def series_map_def Let_def)

text \<open>
  C3, amended. For a panel with the columns year, region, foreigners_total, total_cases and
  population_total that has a row of 2016 and at most one per region,
  prepare_analysis_panel returns a frame with the columns treated, post and did, where in
  every row post is 1 if year >= 2016 and 0 otherwise, treated is 0 or 1 and the same in all
  rows of a region, and did = treated * post.
\<close>

theorem prepare_analysis_panel_design_columns:
  assumes "region_col panel = Some reg"
    and "get_num panel ''foreigners_total'' = Inr ft"
    and "get_num panel ''year'' = Inr yr"
    and "get_num panel ''total_cases'' = Inr tc"
    and "get_num panel ''population_total'' = Inr pop"
    and "length ft = length reg" and "length yr = length reg"
    and "distinct (loc (year_eq yr 2016) reg)"
    and "Some 2016 \<in> set yr"
  shows "\<exists>out treated post did. prepare_analysis_panel panel = Inr out
      \<and> get_num out ''treated'' = Inr treated \<and> length treated = length reg
      \<and> get_num out ''post'' = Inr post \<and> length post = length reg
      \<and> get_num out ''did'' = Inr did \<and> length did = length reg
      \<and> (\<forall>i<length reg.
            post ! i = (if (\<exists>y. yr ! i = Some y \<and> 2016 \<le> y) then Some 1 else Some 0)
          \<and> (treated ! i = Some 0 \<or> treated ! i = Some 1)
          \<and> (\<forall>j<length reg. reg ! j = reg ! i \<longrightarrow> treated ! j = treated ! i)
          \<and> (\<exists>t p. treated ! i = Some t \<and> post ! i = Some p \<and> did ! i = Some (t * p)))"
proof -
  obtain df where df: "add_crime_rate_if_missing panel = Inr df"
    "region_col df = region_col panel"
    "\<forall>c. c \<noteq> ''crime_rate_per_100k'' \<longrightarrow> get_num df c = get_num panel c"
    using add_crime_rate_if_missing_result [OF assms(4,5)] by blast
  have cols: "region_col df = Some reg" "get_num df ''foreigners_total'' = Inr ft"
    "get_num df ''year'' = Inr yr"
    using df assms by simp_all
  define thr where "thr = astype_int (median (loc (year_eq yr 2016) (group_diff [] reg ft)))"
  define P where "P = (\<lambda>r. \<exists>j<length reg. reg ! j = r \<and> yr ! j = Some 2016 \<and>
                  gt_threshold (group_diff [] reg ft ! j) thr)"
  define tr where "tr = map (\<lambda>r. of_bool_num (P r)) reg"
  define po where "po = map (\<lambda>y. of_bool_num (num_ge y (Some 2016))) yr"
  define dd where "dd = map2 num_mul tr po"
  obtain out where out: "add_treatment_variables df = Inr out"
    "get_num out ''treated'' = Inr tr" "get_num out ''post'' = Inr po"
    "get_num out ''did'' = Inr dd"
    unfolding dd_def tr_def po_def P_def thr_def
    using add_treatment_variables_result [OF cols assms(6,7,8,9)] by blast
  have prep: "prepare_analysis_panel panel = Inr out"
    using df(1) out(1) by (simp add: prepare_analysis_panel_def)
  have lens: "length tr = length reg" "length po = length reg" "length dd = length reg"
    using assms(7) by (simp_all add: tr_def po_def dd_def)
  have ge: "num_ge v (Some 2016) \<longleftrightarrow> (\<exists>y. v = Some y \<and> 2016 \<le> y)" for v
    by (cases v) (simp_all add: num_ge_def)
  have row: "po ! i = (if (\<exists>y. yr ! i = Some y \<and> 2016 \<le> y) then Some 1 else Some 0)
          \<and> (tr ! i = Some 0 \<or> tr ! i = Some 1)
          \<and> (\<forall>j<length reg. reg ! j = reg ! i \<longrightarrow> tr ! j = tr ! i)
          \<and> (\<exists>t p. tr ! i = Some t \<and> po ! i = Some p \<and> dd ! i = Some (t * p))"
    if i: "i < length reg" for i
  proof -
    have p: "po ! i = (if (\<exists>y. yr ! i = Some y \<and> 2016 \<le> y) then Some 1 else Some 0)"
      using i assms(7) by (simp add: po_def of_bool_num_def ge)
    have t: "tr ! i = Some (if P (reg ! i) then 1 else 0)"
      using i by (simp add: tr_def of_bool_num_def)
    have c: "\<forall>j<length reg. reg ! j = reg ! i \<longrightarrow> tr ! j = tr ! i"
      using i by (simp add: tr_def)
    have d: "dd ! i = num_mul (tr ! i) (po ! i)"
      using i lens by (simp add: dd_def)
    have "\<exists>t p. tr ! i = Some t \<and> po ! i = Some p \<and> dd ! i = Some (t * p)"
      unfolding d p t by (simp add: num_mul_def)
    with p t c show ?thesis by auto
  qed
  then have rows: "\<forall>i<length reg.
            po ! i = (if (\<exists>y. yr ! i = Some y \<and> 2016 \<le> y) then Some 1 else Some 0)
          \<and> (tr ! i = Some 0 \<or> tr ! i = Some 1)
          \<and> (\<forall>j<length reg. reg ! j = reg ! i \<longrightarrow> tr ! j = tr ! i)
          \<and> (\<exists>t p. tr ! i = Some t \<and> po ! i = Some p \<and> dd ! i = Some (t * p))"
    by blast
  from prep out(2,3,4) lens rows show ?thesis by blast
qed

lemma cx_inflow_prepared:
  "\<exists>out. prepare_analysis_panel cx_inflow_panel = Inr out
     \<and> get_num out ''treated'' = Inr [Some 0, Some 1, Some 0, Some 1, Some 0, Some 1, Some 0]
     \<and> get_num out ''post'' = Inr [Some 0, Some 0, Some 1, Some 1, Some 1, Some 1, Some 0]
     \<and> get_num out ''did'' = Inr [Some 0, Some 0, Some 0, Some 1, Some 0, Some 1, Some 0]"
  by (simp add: prepare_analysis_panel_def add_crime_rate_if_missing_def
      add_treatment_variables_def cx_inflow_panel_def cx_inflow_region_def cx_inflow_year_def
      cx_inflow_foreigners_def has_col_def get_region_def get_num_def set_num_def
      year_eq_def median_def cx_casts median_astype_int_def
      series_map_def gt_threshold_def fillna0_int_def
      num_sub_def num_gt_def num_ge_def num_mul_def of_bool_num_def Let_def)

theorem prepare_analysis_panel_design_columns_witness:
  "region_col cx_inflow_panel = Some cx_inflow_region
   \<and> get_num cx_inflow_panel ''foreigners_total'' = Inr cx_inflow_foreigners
   \<and> get_num cx_inflow_panel ''year'' = Inr cx_inflow_year
   \<and> get_num cx_inflow_panel ''total_cases'' = Inr cx_inflow_cases
   \<and> get_num cx_inflow_panel ''population_total'' = Inr cx_inflow_population
   \<and> length cx_inflow_foreigners = length cx_inflow_region
   \<and> length cx_inflow_year = length cx_inflow_region
   \<and> distinct (loc (year_eq cx_inflow_year 2016) cx_inflow_region)
   \<and> Some 2016 \<in> set cx_inflow_year
   \<and> (\<exists>out. prepare_analysis_panel cx_inflow_panel = Inr out
      \<and> get_num out ''treated'' = Inr [Some 0, Some 1, Some 0, Some 1, Some 0, Some 1, Some 0]
      \<and> get_num out ''post'' = Inr [Some 0, Some 0, Some 1, Some 1, Some 1, Some 1, Some 0]
      \<and> get_num out ''did'' = Inr [Some 0, Some 0, Some 0, Some 1, Some 0, Some 1, Some 0])"
proof -
  obtain out treated post did where out: "prepare_analysis_panel cx_inflow_panel = Inr out"
    "get_num out ''treated'' = Inr treated" "length treated = length cx_inflow_region"
    "get_num out ''post'' = Inr post" "length post = length cx_inflow_region"
    "get_num out ''did'' = Inr did" "length did = length cx_inflow_region"
    and rows: "\<forall>i<length cx_inflow_region.
            post ! i = (if (\<exists>y. cx_inflow_year ! i = Some y \<and> 2016 \<le> y) then Some 1 else Some 0)
          \<and> (treated ! i = Some 0 \<or> treated ! i = Some 1)
          \<and> (\<forall>j<length cx_inflow_region. cx_inflow_region ! j = cx_inflow_region ! i
                \<longrightarrow> treated ! j = treated ! i)
          \<and> (\<exists>t p. treated ! i = Some t \<and> post ! i = Some p \<and> did ! i = Some (t * p))"
    using prepare_analysis_panel_design_columns
      [OF cx_inflow_panel_cols(1,2,3) cx_inflow_panel_cases cx_inflow_panel_cols(4,5,6,7)]
    by blast
  from out(1,2,4,6) cx_inflow_prepared
  have "get_num out ''treated'' = Inr [Some 0, Some 1, Some 0, Some 1, Some 0, Some 1, Some 0]
      \<and> get_num out ''post'' = Inr [Some 0, Some 0, Some 1, Some 1, Some 1, Some 1, Some 0]
      \<and> get_num out ''did'' = Inr [Some 0, Some 0, Some 0, Some 1, Some 0, Some 1, Some 0]"
    by auto
  with out(1) cx_inflow_panel_cols cx_inflow_panel_cases show ?thesis by blast
qed

subsection \<open>fit_pretrend_interaction\<close>



lemma dropna_map_Some [simp]: "dropna (map Some qs) = qs"
  by (induction qs) simp_all

lemma num_lt_simps [simp]:
  "num_lt None b = False" "num_lt a None = False" "num_lt (Some x) (Some y) \<longleftrightarrow> x < y"
  by (simp_all add: num_lt_def split: option.splits)





lemma cx_model_panel_cols:
  "region_col cx_model_panel = Some cx_model_region"
  "get_num cx_model_panel ''year'' = Inr cx_model_year"
  "get_num cx_model_panel ''treatment_intensity'' = Inr cx_intensity"
  "get_num cx_model_panel ''post'' = Inr cx_post"
  "length cx_model_year = length cx_model_region"
  "length cx_intensity = length cx_model_region"
  "length cx_post = length cx_model_region"
  "distinct (loc (year_eq cx_model_year 2016) cx_model_region)"
  by (simp_all add: cx_model_panel_def get_num_def year_eq_def cx_model_region_def
      cx_model_year_def cx_intensity_def cx_post_def)


subsection \<open>run_threshold_grid\<close>



lemma series_get_absent: "k \<notin> fst ` set s \<Longrightarrow> series_get s k d = d"
  by (simp add: series_get_def map_of_eq_None_iff [THEN iffD2])



subsection \<open>Regions without a row for 2016\<close>

lemma num_gt_None [simp]: "num_gt None b = False" "num_gt a None = False"
  by (simp_all add: num_gt_def split: option.splits)

lemma gt_threshold_None [simp]: "gt_threshold None thr = False"
  by (simp add: gt_threshold_def)

lemma num_mul_zero_bool [simp]: "num_mul (Some 0) (of_bool_num b) = Some 0"
  by (simp add: num_mul_def of_bool_num_def)

lemma threshold_frame_result:
  assumes reg: "region_col panel = Some reg"
    and yr: "get_num panel ''year'' = Inr yr"
    and ti: "get_num panel ''treatment_intensity'' = Inr ti"
    and post: "get_num panel ''post'' = Inr post"
    and len: "length yr = length reg" "length ti = length reg"
    and dist: "distinct (loc (year_eq yr 2016) reg)"
  shows "\<exists>df. threshold_frame panel thr = Inr df
      \<and> get_num df ''treated_alt'' =
          Inr (map (\<lambda>r. of_bool_num (\<exists>j<length reg. reg ! j = r \<and> yr ! j = Some 2016 \<and>
                                        num_gt (ti ! j) thr)) reg)
      \<and> get_num df ''did_alt'' =
          Inr (map2 num_mul
                (map (\<lambda>r. of_bool_num (\<exists>j<length reg. reg ! j = r \<and> yr ! j = Some 2016 \<and>
                                        num_gt (ti ! j) thr)) reg)
                post)"
proof -
  let ?m = "year_eq yr 2016"
  let ?f = "\<lambda>t. of_bool_num (num_gt t thr)"
  let ?S = "zip (loc ?m reg) (map ?f (loc ?m ti))"
  have S: "map (\<lambda>(r, t). (r, ?f t)) (zip (loc ?m reg) (loc ?m ti)) = ?S"
    by (simp add: zip_map2)
  let ?S' = "map (\<lambda>(r, t). (r, ?f t)) (zip (loc ?m reg) (loc ?m ti))"
  have dS: "distinct (map fst ?S')"
    unfolding S using len dist by (simp add: loc_zip loc_map [symmetric])
  note lookup = series_lookup [OF len(2) dist, of ?f]
  have val: "(case map_of ?S r of None \<Rightarrow> Some 0 | Some v \<Rightarrow> v)
      = of_bool_num (\<exists>j<length reg. reg ! j = r \<and> yr ! j = Some 2016 \<and> num_gt (ti ! j) thr)"
    for r
  proof (cases "map_of ?S r")
    case None
    then have "\<not> (\<exists>j<length reg. j < length ?m \<and> ?m ! j \<and> reg ! j = r
                  \<and> ?f (ti ! j) = Some 1)"
      using lookup [of r "Some 1"] by simp
    then have "\<not> (\<exists>j<length reg. reg ! j = r \<and> yr ! j = Some 2016 \<and> num_gt (ti ! j) thr)"
      using len by (auto simp: of_bool_num_def)
    with None show ?thesis by (simp add: of_bool_num_def)
  next
    case (Some v)
    then obtain j where j: "j < length reg" "yr ! j = Some 2016" "reg ! j = r" "?f (ti ! j) = v"
      using lookup [of r v] len by auto
    have "(\<exists>j<length reg. reg ! j = r \<and> yr ! j = Some 2016 \<and> num_gt (ti ! j) thr)
        \<longleftrightarrow> num_gt (ti ! j) thr"
    proof
      assume "\<exists>i<length reg. reg ! i = r \<and> yr ! i = Some 2016 \<and> num_gt (ti ! i) thr"
      then obtain i where "i < length reg" "reg ! i = r" "yr ! i = Some 2016" "num_gt (ti ! i) thr"
        by blast
      then have "map_of ?S r = Some (Some 1)"
        using lookup [of r "Some 1"] len by (auto simp: of_bool_num_def)
      with Some j(4) show "num_gt (ti ! j) thr" by (simp add: of_bool_num_def split: if_splits)
    next
      assume "num_gt (ti ! j) thr"
      with j show "\<exists>j<length reg. reg ! j = r \<and> yr ! j = Some 2016 \<and> num_gt (ti ! j) thr"
        by blast
    qed
    with Some j(4) show ?thesis by simp
  qed
  have val': "(case map_of ?S' r of None \<Rightarrow> Some 0 | Some v \<Rightarrow> v)
      = of_bool_num (\<exists>j<length reg. reg ! j = r \<and> yr ! j = Some 2016 \<and> num_gt (ti ! j) thr)"
    for r
    unfolding S by (rule val)
  have greg: "get_region panel = Inr reg" using reg by (simp add: get_region_def)
  show ?thesis
    using greg yr ti post dS
    by (simp add: threshold_frame_def series_map_def Let_def val' o_def)
qed

text \<open>
  C9, as stated, fails for did_alt. Region B has no row for 2016 and its treated_alt is 0,
  but post is missing in its row, and did_alt = treated_alt * post is then missing too, not 0.
\<close>

theorem did_alt_without_2016_counterexample:
  "threshold_frame cx_nan_post (Some 0) =
     Inr \<lparr>region_col = Some [''A'', ''B''],
          num_cols = [(''year'', [Some 2016, Some 2015]),
                      (''treatment_intensity'', [Some 5, None]),
                      (''post'', [Some 1, None]),
                      (''treated_alt'', [Some 1, Some 0]),
                      (''did_alt'', [Some 1, None])]\<rparr>"
  by (simp add: threshold_frame_def cx_nan_post_def get_num_def get_region_def set_num_def
      year_eq_def series_map_def Let_def of_bool_num_def num_gt_def num_mul_def)

text \<open>
  C9, amended. A region that has no row with year 2016, or whose treatment_intensity of
  2016 is missing, is in the control group. In add_treatment_variables its treated and did
  are 0 in every row. In run_did_with_threshold its treated_alt is 0 in every row, and its
  did_alt is 0 * post: 0 in every row where post is not missing. Both panels are such that
  the function returns: at most one row of 2016 per region, and for add_treatment_variables
  a row of 2016 in some region.
\<close>

theorem control_group_without_2016:
  assumes "region_col panel = Some reg"
    and "get_num panel ''foreigners_total'' = Inr ft"
    and "get_num panel ''year'' = Inr yr"
    and "length ft = length reg" and "length yr = length reg"
    and "distinct (loc (year_eq yr 2016) reg)"
    and "Some 2016 \<in> set yr"
    and "\<forall>j<length reg. reg ! j = r \<and> yr ! j = Some 2016 \<longrightarrow> group_diff [] reg ft ! j = None"
    and "region_col panel' = Some reg'"
    and "get_num panel' ''year'' = Inr yr'"
    and "get_num panel' ''treatment_intensity'' = Inr ti'"
    and "get_num panel' ''post'' = Inr post'"
    and "length yr' = length reg'" and "length ti' = length reg'" and "length post' = length reg'"
    and "distinct (loc (year_eq yr' 2016) reg')"
    and "\<forall>j<length reg'. reg' ! j = r' \<and> yr' ! j = Some 2016 \<longrightarrow> ti' ! j = None"
  shows "(\<exists>out ti treated did. add_treatment_variables panel = Inr out
          \<and> get_num out ''treatment_intensity'' = Inr ti
          \<and> get_num out ''treated'' = Inr treated \<and> get_num out ''did'' = Inr did
          \<and> (\<forall>i<length reg. reg ! i = r \<longrightarrow> treated ! i = Some 0 \<and> did ! i = Some 0))
       \<and> (\<exists>df treated_alt did_alt. threshold_frame panel' thr = Inr df
          \<and> get_num df ''treated_alt'' = Inr treated_alt \<and> get_num df ''did_alt'' = Inr did_alt
          \<and> (\<forall>i<length reg'. reg' ! i = r' \<longrightarrow>
                 treated_alt ! i = Some 0
               \<and> did_alt ! i = num_mul (Some 0) (post' ! i)
               \<and> (post' ! i \<noteq> None \<longrightarrow> did_alt ! i = Some 0)))"
proof -
  let ?ti = "group_diff [] reg ft"
  let ?P = "\<lambda>r. \<exists>j<length reg. reg ! j = r \<and> yr ! j = Some 2016 \<and>
                  gt_threshold (?ti ! j) (astype_int (median (loc (year_eq yr 2016) ?ti)))"
  let ?tr = "map (\<lambda>r. of_bool_num (?P r)) reg"
  let ?po = "map (\<lambda>y. of_bool_num (num_ge y (Some 2016))) yr"
  obtain out where out: "add_treatment_variables panel = Inr out"
    "get_num out ''treatment_intensity'' = Inr ?ti"
    "get_num out ''treated'' = Inr ?tr"
    "get_num out ''did'' = Inr (map2 num_mul ?tr ?po)"
    using add_treatment_variables_result [OF assms(1-7)] by blast
  have notP: "\<not> ?P r" using assms(8) by auto
  have design: "\<forall>i<length reg. reg ! i = r \<longrightarrow>
      ?tr ! i = Some 0 \<and> map2 num_mul ?tr ?po ! i = Some 0"
    using notP assms(5) by (auto simp: of_bool_num_def num_mul_def)
  let ?Q = "\<lambda>r. \<exists>j<length reg'. reg' ! j = r \<and> yr' ! j = Some 2016 \<and> num_gt (ti' ! j) thr"
  let ?ta = "map (\<lambda>r. of_bool_num (?Q r)) reg'"
  obtain df where df: "threshold_frame panel' thr = Inr df"
    "get_num df ''treated_alt'' = Inr ?ta"
    "get_num df ''did_alt'' = Inr (map2 num_mul ?ta post')"
    using threshold_frame_result [OF assms(9-14) assms(16)] by blast
  have notQ: "\<not> ?Q r'" using assms(17) by auto
  have alt: "\<forall>i<length reg'. reg' ! i = r' \<longrightarrow>
                 ?ta ! i = Some 0
               \<and> map2 num_mul ?ta post' ! i = num_mul (Some 0) (post' ! i)
               \<and> (post' ! i \<noteq> None \<longrightarrow> map2 num_mul ?ta post' ! i = Some 0)"
    using notQ assms(15) by (auto simp: of_bool_num_def num_mul_def)
  have A: "\<exists>out ti treated did. add_treatment_variables panel = Inr out
          \<and> get_num out ''treatment_intensity'' = Inr ti
          \<and> get_num out ''treated'' = Inr treated \<and> get_num out ''did'' = Inr did
          \<and> (\<forall>i<length reg. reg ! i = r \<longrightarrow> treated ! i = Some 0 \<and> did ! i = Some 0)"
    using out design by blast
  have B: "\<exists>df treated_alt did_alt. threshold_frame panel' thr = Inr df
          \<and> get_num df ''treated_alt'' = Inr treated_alt \<and> get_num df ''did_alt'' = Inr did_alt
          \<and> (\<forall>i<length reg'. reg' ! i = r' \<longrightarrow>
                 treated_alt ! i = Some 0
               \<and> did_alt ! i = num_mul (Some 0) (post' ! i)
               \<and> (post' ! i \<noteq> None \<longrightarrow> did_alt ! i = Some 0))"
    using df alt by blast
  from A B show ?thesis by blast
qed

lemma cx_no_2016:
  "\<forall>j<length cx_region. cx_region ! j = ''C'' \<and> cx_year ! j = Some 2016
      \<longrightarrow> group_diff [] cx_region cx_foreigners ! j = None"
  "\<forall>j<length cx_model_region. cx_model_region ! j = ''C'' \<and> cx_model_year ! j = Some 2016
      \<longrightarrow> cx_intensity ! j = None"
  by (simp_all add: cx_region_def cx_year_def cx_model_region_def cx_model_year_def
      All_less_Suc)

lemma cx_no_2016_rows:
  "''C'' \<notin> set (loc (year_eq cx_year 2016) cx_region)"
  "''C'' \<notin> set (loc (year_eq cx_model_year 2016) cx_model_region)"
  by (simp_all add: year_eq_def cx_region_def cx_year_def cx_model_region_def
      cx_model_year_def)

theorem control_group_without_2016_witness:
  "region_col cx_panel = Some cx_region
   \<and> get_num cx_panel ''foreigners_total'' = Inr cx_foreigners
   \<and> get_num cx_panel ''year'' = Inr cx_year
   \<and> length cx_foreigners = length cx_region \<and> length cx_year = length cx_region
   \<and> distinct (loc (year_eq cx_year 2016) cx_region)
   \<and> Some 2016 \<in> set cx_year
   \<and> ''C'' \<notin> set (loc (year_eq cx_year 2016) cx_region)
   \<and> region_col cx_model_panel = Some cx_model_region
   \<and> get_num cx_model_panel ''year'' = Inr cx_model_year
   \<and> get_num cx_model_panel ''treatment_intensity'' = Inr cx_intensity
   \<and> get_num cx_model_panel ''post'' = Inr cx_post
   \<and> length cx_model_year = length cx_model_region
   \<and> length cx_intensity = length cx_model_region
   \<and> length cx_post = length cx_model_region
   \<and> distinct (loc (year_eq cx_model_year 2016) cx_model_region)
   \<and> ''C'' \<notin> set (loc (year_eq cx_model_year 2016) cx_model_region)
   \<and> (\<exists>out ti treated did. add_treatment_variables cx_panel = Inr out
          \<and> get_num out ''treatment_intensity'' = Inr ti
          \<and> get_num out ''treated'' = Inr treated \<and> get_num out ''did'' = Inr did
          \<and> (\<forall>i<length cx_region. cx_region ! i = ''C'' \<longrightarrow>
                 treated ! i = Some 0 \<and> did ! i = Some 0))
   \<and> (\<exists>df treated_alt did_alt. threshold_frame cx_model_panel (Some 1) = Inr df
          \<and> get_num df ''treated_alt'' = Inr treated_alt \<and> get_num df ''did_alt'' = Inr did_alt
          \<and> (\<forall>i<length cx_model_region. cx_model_region ! i = ''C'' \<longrightarrow>
                 treated_alt ! i = Some 0
               \<and> did_alt ! i = num_mul (Some 0) (cx_post ! i)
               \<and> (cx_post ! i \<noteq> None \<longrightarrow> did_alt ! i = Some 0)))"
  using cx_panel_cols cx_model_panel_cols cx_no_2016_rows
    control_group_without_2016
      [OF cx_panel_cols cx_no_2016(1) cx_model_panel_cols cx_no_2016(2), of "Some 1"]
  by blast

subsection \<open>build_event_study_table\<close>

text \<open>The matcher accepts the language of the regular expression, followed by any text.\<close>

lemma strip_prefix_iff: "strip_prefix p s = Some r \<longleftrightarrow> s = p @ r"
  by (induction p s rule: strip_prefix.induct) auto

lemma event_pattern_match_iff:
  "event_pattern_match s = Some d \<longleftrightarrow>
     (\<exists>d1 rest. s = ''C(year, Treatment(reference='' @ d1 @ ''))['' @ d @ '']:treated'' @ rest
        \<and> d1 \<noteq> [] \<and> d \<noteq> [] \<and> (\<forall>c\<in>set d1. is_digit c) \<and> (\<forall>c\<in>set d. is_digit c))"
proof
  assume m: "event_pattern_match s = Some d"
  then obtain s1 where s1: "strip_prefix ''C(year, Treatment(reference='' s = Some s1"
    by (auto simp: event_pattern_match_def split: option.splits)
  with m have d1: "takeWhile is_digit s1 \<noteq> []"
    by (auto simp: event_pattern_match_def split: option.splits if_splits)
  with m s1 obtain s2 where s2: "strip_prefix ''))['' (dropWhile is_digit s1) = Some s2"
    by (auto simp: event_pattern_match_def split: option.splits if_splits)
  with m s1 d1 have d: "takeWhile is_digit s2 \<noteq> []" "d = takeWhile is_digit s2"
    by (auto simp: event_pattern_match_def split: option.splits if_splits)
  with m s1 d1 s2 obtain rest where
    rest: "strip_prefix '']:treated'' (dropWhile is_digit s2) = Some rest"
    by (auto simp: event_pattern_match_def split: option.splits if_splits)
  have "s2 = d @ '']:treated'' @ rest"
    using rest d(2) takeWhile_dropWhile_id [of is_digit s2] by (simp add: strip_prefix_iff)
  moreover have "s1 = takeWhile is_digit s1 @ ''))['' @ s2"
    using s2 takeWhile_dropWhile_id [of is_digit s1] by (simp add: strip_prefix_iff)
  moreover have "s = ''C(year, Treatment(reference='' @ s1"
    using s1 by (simp add: strip_prefix_iff)
  ultimately have "s = ''C(year, Treatment(reference='' @ takeWhile is_digit s1 @ ''))[''
      @ d @ '']:treated'' @ rest"
    by simp
  moreover have "\<forall>c\<in>set (takeWhile is_digit s1). is_digit c" "\<forall>c\<in>set d. is_digit c"
    using d(2) by (auto dest: set_takeWhileD)
  ultimately show "\<exists>d1 rest. s = ''C(year, Treatment(reference='' @ d1 @ ''))['' @ d
        @ '']:treated'' @ rest
        \<and> d1 \<noteq> [] \<and> d \<noteq> [] \<and> (\<forall>c\<in>set d1. is_digit c) \<and> (\<forall>c\<in>set d. is_digit c)"
    using d1 d by blast
next
  assume "\<exists>d1 rest. s = ''C(year, Treatment(reference='' @ d1 @ ''))['' @ d @ '']:treated'' @ rest
        \<and> d1 \<noteq> [] \<and> d \<noteq> [] \<and> (\<forall>c\<in>set d1. is_digit c) \<and> (\<forall>c\<in>set d. is_digit c)"
  then obtain d1 rest where
    s: "s = ''C(year, Treatment(reference='' @ d1 @ ''))['' @ d @ '']:treated'' @ rest"
    and ne: "d1 \<noteq> []" "d \<noteq> []"
    and dig: "\<forall>c\<in>set d1. is_digit c" "\<forall>c\<in>set d. is_digit c"
    by blast
  let ?s2 = "d @ '']:treated'' @ rest"
  let ?s1 = "d1 @ ''))['' @ ?s2"
  have p1: "strip_prefix ''C(year, Treatment(reference='' s = Some ?s1"
    unfolding strip_prefix_iff s by simp
  have t1: "takeWhile is_digit ?s1 = d1" "dropWhile is_digit ?s1 = ''))['' @ ?s2"
    using dig(1) by (simp_all add: takeWhile_append2 dropWhile_append2 is_digit_def)
  have p2: "strip_prefix ''))['' (''))['' @ ?s2) = Some ?s2"
    unfolding strip_prefix_iff by simp
  have t2: "takeWhile is_digit ?s2 = d" "dropWhile is_digit ?s2 = '']:treated'' @ rest"
    using dig(2) by (simp_all add: takeWhile_append2 dropWhile_append2 is_digit_def)
  have p3: "strip_prefix '']:treated'' ('']:treated'' @ rest) = Some rest"
    unfolding strip_prefix_iff by simp
  show "event_pattern_match s = Some d"
    unfolding event_pattern_match_def p1 option.case t1 p2 t2 p3 using ne by simp
qed

lemma event_rows_loop_eq:
  "event_rows_loop m ref rows items =
     rows @ map (extracted_row m ref) (filter (\<lambda>(nm, cf). event_pattern_match nm \<noteq> None) items)"
proof (induction items arbitrary: rows)
  case Nil
  then show ?case by simp
next
  case (Cons item items)
  obtain nm cf where item: "item = (nm, cf)" by (cases item)
  show ?case
  proof (cases "event_pattern_match nm")
    case None
    with Cons item show ?thesis by simp
  next
    case (Some digits)
    then have "extracted_row m ref (nm, cf) =
        \<lparr>year = int_of_digits digits, rel_year = int_of_digits digits - ref, coef = cf,
         se = series_get (bse m) nm None, pvalue = series_get (pvalues m) nm None,
         ci_low = fst (case map_of (conf_int m) nm of Some (lo, hi) \<Rightarrow> (lo, hi)
                       | None \<Rightarrow> (None, None)),
         ci_high = snd (case map_of (conf_int m) nm of Some (lo, hi) \<Rightarrow> (lo, hi)
                       | None \<Rightarrow> (None, None))\<rparr>"
      by (simp add: extracted_row_def parsed_year_def split: option.splits)
    with Some Cons item show ?thesis by (simp add: Let_def)
  qed
qed

lemma build_event_study_table_eq:
  "build_event_study_table m ref =
     (if matching_params m = [] then Inl ValueError
      else Inr (map (\<lambda>r. r\<lparr>pvalue := round3 (pvalue r)\<rparr>)
             (sort_key rel_year
               (map (extracted_row m ref) (matching_params m)
                 @ (if \<exists>p\<in>set (matching_params m). parsed_year (fst p) = ref then []
                    else [reference_row ref])))))"
proof -
  have ex: "list_ex (\<lambda>r. year r = ref) (map (extracted_row m ref) (matching_params m))
      \<longleftrightarrow> (\<exists>p\<in>set (matching_params m). parsed_year (fst p) = ref)"
    by (auto simp: list_ex_iff extracted_row_def)
  have loop: "event_rows_loop m ref [] (params m) = map (extracted_row m ref) (matching_params m)"
    unfolding event_rows_loop_eq matching_params_def by simp
  show ?thesis
    unfolding build_event_study_table_def loop Let_def ex reference_row_def
    by simp
qed

lemma cx_event_model_matching:
  "filter (\<lambda>(nm, cf). event_pattern_match nm \<noteq> None) (params cx_event_model)
     = [(''C(year, Treatment(reference=2015))[2016]:treated'', Some 7),
        (''C(year, Treatment(reference=2015))[2014]:treated'', Some (- 1))]"
  by (simp add: cx_event_model_def event_pattern_match_def is_digit_def)

lemma cx_event_model_years:
  "parsed_year ''C(year, Treatment(reference=2015))[2016]:treated'' = 2016"
  "parsed_year ''C(year, Treatment(reference=2015))[2014]:treated'' = 2014"
  by (simp_all add: parsed_year_def event_pattern_match_def is_digit_def int_of_digits_def
      digit_value_def)





lemma distinct_filter_le1:
  "distinct (map f xs) \<Longrightarrow> length (filter (\<lambda>x. f x = a) xs) \<le> 1"
proof (induction xs)
  case Nil
  then show ?case by simp
next
  case (Cons x xs)
  show ?case
  proof (cases "f x = a")
    case True
    with Cons.prems have "filter (\<lambda>x. f x = a) xs = []"
      by (force simp: filter_empty_conv image_iff)
    with True show ?thesis by simp
  next
    case False
    with Cons show ?thesis by simp
  qed
qed

text \<open>
  The rest of the table's shape holds for every model. build_event_study_table raises
  ValueError exactly when no parameter name matches the pattern. A table it returns is
  sorted by rel_year and has a row with year = ref_year: exactly one when the years of the
  matching parameters are pairwise distinct, as they are when each matching name is the
  whole pattern; and when none of them is ref_year that row is the reference row (rel_year
  0, coef 0, se, ci_low and ci_high missing).
\<close>

lemma event_study_table_shape:
  "(build_event_study_table m ref = Inl ValueError
      \<longleftrightarrow> filter (\<lambda>(nm, cf). event_pattern_match nm \<noteq> None) (params m) = [])
   \<and> (\<forall>table. build_event_study_table m ref = Inr table \<longrightarrow>
          sorted (map rel_year table)
        \<and> (\<exists>r\<in>set table. year r = ref)
        \<and> (distinct (map (\<lambda>(nm, cf). parsed_year nm)
                        (filter (\<lambda>(nm, cf). event_pattern_match nm \<noteq> None) (params m)))
             \<longrightarrow> length (filter (\<lambda>r. year r = ref) table) = 1)
        \<and> ((\<forall>(nm, cf)\<in>set (params m). event_pattern_match nm \<noteq> None \<longrightarrow> parsed_year nm \<noteq> ref)
             \<longrightarrow> filter (\<lambda>r. year r = ref) table = [reference_row ref]))"
proof -
  let ?rnd = "\<lambda>r :: event_row. r\<lparr>pvalue := round3 (pvalue r)\<rparr>"
  let ?P = "\<lambda>r :: event_row. year r = ref"
  define M where "M = filter (\<lambda>(nm, cf). event_pattern_match nm \<noteq> None) (params m)"
  define E where "E \<longleftrightarrow> (\<exists>p\<in>set M. parsed_year (fst p) = ref)"
  define xs where "xs = map (extracted_row m ref) M @ (if E then [] else [reference_row ref])"
  have M: "matching_params m = M" by (simp add: matching_params_def M_def)
  have eq: "build_event_study_table m ref =
      (if M = [] then Inl ValueError else Inr (map ?rnd (sort_key rel_year xs)))"
    unfolding build_event_study_table_eq M xs_def E_def by simp
  have raise: "build_event_study_table m ref = Inl ValueError \<longleftrightarrow> M = []"
    unfolding eq by simp
  have P_rnd: "?P (?rnd r) = ?P r" for r by simp
  have filt: "filter ?P (map ?rnd (sort_key rel_year xs))
      = map ?rnd (sort_key rel_year (filter ?P xs))"
    by (simp add: filter_map comp_def filter_sort)
  have filt_xs: "filter ?P xs
      = map (extracted_row m ref) (filter (\<lambda>p. parsed_year (fst p) = ref) M)
        @ (if E then [] else [reference_row ref])"
    unfolding xs_def by (simp add: filter_map comp_def extracted_row_def reference_row_def)
  have sorted: "sorted (map rel_year (map ?rnd (sort_key rel_year xs)))"
  proof -
    have "map rel_year (map ?rnd (sort_key rel_year xs)) = map rel_year (sort_key rel_year xs)"
      by simp
    then show ?thesis by (simp only: sorted_sort_key)
  qed
  have some: "\<exists>r\<in>set (map ?rnd (sort_key rel_year xs)). year r = ref"
  proof -
    have "filter ?P xs \<noteq> []"
      unfolding filt_xs E_def by (auto simp: filter_empty_conv)
    then have "sort_key rel_year (filter ?P xs) \<noteq> []"
      by (metis length_sort length_0_conv)
    then have "filter ?P (map ?rnd (sort_key rel_year xs)) \<noteq> []"
      unfolding filt by simp
    then show ?thesis by (auto simp: filter_empty_conv)
  qed
  have one: "length (filter ?P (map ?rnd (sort_key rel_year xs))) = 1"
    if d: "distinct (map (\<lambda>(nm, cf). parsed_year nm) M)"
  proof -
    have d': "distinct (map (\<lambda>p. parsed_year (fst p)) M)"
    proof -
      have "(\<lambda>(nm, cf). parsed_year nm) = (\<lambda>p :: string \<times> num. parsed_year (fst p))"
        by (rule ext) (simp add: case_prod_beta)
      with d show ?thesis by simp
    qed
    have le: "length (filter (\<lambda>p. parsed_year (fst p) = ref) M) \<le> 1"
      using distinct_filter_le1 [OF d', of ref] .
    have "length (filter ?P xs) = 1"
    proof (cases E)
      case True
      then have "filter (\<lambda>p. parsed_year (fst p) = ref) M \<noteq> []"
        unfolding E_def by (auto simp: filter_empty_conv)
      then have "length (filter (\<lambda>p. parsed_year (fst p) = ref) M) \<ge> 1"
        by (cases "filter (\<lambda>p. parsed_year (fst p) = ref) M") simp_all
      with le True show ?thesis unfolding filt_xs by simp
    next
      case False
      then have "filter (\<lambda>p. parsed_year (fst p) = ref) M = []"
        unfolding E_def by (auto simp: filter_empty_conv)
      with False show ?thesis unfolding filt_xs by simp
    qed
    then show ?thesis unfolding filt by simp
  qed
  have none: "filter ?P (map ?rnd (sort_key rel_year xs)) = [reference_row ref]"
    if n: "\<forall>(nm, cf)\<in>set (params m). event_pattern_match nm \<noteq> None \<longrightarrow> parsed_year nm \<noteq> ref"
  proof -
    have nE: "\<not> E" using n unfolding E_def M_def by auto
    then have "filter (\<lambda>p. parsed_year (fst p) = ref) M = []"
      unfolding E_def by (auto simp: filter_empty_conv)
    with nE have "filter ?P xs = [reference_row ref]" unfolding filt_xs by simp
    then show ?thesis unfolding filt by (simp add: reference_row_def round3_def)
  qed
  show ?thesis
    unfolding M_def [symmetric]
    using raise sorted some one none by (auto simp: eq split: if_splits)
qed

lemma event_study_table_shape_example:
  "\<exists>table. build_event_study_table cx_event_model 2015 = Inr table
     \<and> sorted (map rel_year table)
     \<and> length (filter (\<lambda>r. year r = 2015) table) = 1
     \<and> filter (\<lambda>r. year r = 2015) table = [reference_row 2015]"
proof -
  have "build_event_study_table cx_event_model 2015 \<noteq> Inl ValueError"
    using event_study_table_shape [of cx_event_model 2015]
    unfolding cx_event_model_matching by simp
  moreover have "build_event_study_table cx_event_model 2015 = Inl ValueError
      \<or> (\<exists>table. build_event_study_table cx_event_model 2015 = Inr table)"
    by (simp add: build_event_study_table_eq)
  ultimately obtain table where t: "build_event_study_table cx_event_model 2015 = Inr table"
    by blast
  have d: "distinct (map (\<lambda>(nm, cf). parsed_year nm)
                        (filter (\<lambda>(nm, cf). event_pattern_match nm \<noteq> None)
                           (params cx_event_model)))"
    unfolding cx_event_model_matching by (simp add: cx_event_model_years)
  have n: "\<forall>(nm, cf)\<in>set (params cx_event_model).
      event_pattern_match nm \<noteq> None \<longrightarrow> parsed_year nm \<noteq> 2015"
  proof -
    have "(\<forall>(nm, cf)\<in>set (params cx_event_model).
             event_pattern_match nm \<noteq> None \<longrightarrow> parsed_year nm \<noteq> 2015)
      \<longleftrightarrow> (\<forall>(nm, cf)\<in>set (filter (\<lambda>(nm, cf). event_pattern_match nm \<noteq> None)
                              (params cx_event_model)). parsed_year nm \<noteq> 2015)"
      by auto
    then show ?thesis
      unfolding cx_event_model_matching by (simp add: cx_event_model_years)
  qed
  from event_study_table_shape [of cx_event_model 2015] t d n
  have "sorted (map rel_year table)
     \<and> length (filter (\<lambda>r. year r = 2015) table) = 1
     \<and> filter (\<lambda>r. year r = 2015) table = [reference_row 2015]"
    by blast
  with t show ?thesis by blast
qed

subsection \<open>compute_parallel_trends_data and compute_treatment_intensity_distribution\<close>

lemma has_col_get_num:
  "c \<noteq> ''region'' \<Longrightarrow> has_col df c \<Longrightarrow> \<exists>v. get_num df c = Inr v"
  by (auto simp: has_col_def get_num_def map_of_eq_None_iff split: option.splits)

lemma group_keys_set:
  "set (group_keys ys ts) = {(a, b). (Some a, Some b) \<in> set (zip ys ts)}"
proof -
  have "set (concat (map2 (\<lambda>y t. case (y, t) of (Some a, Some b) \<Rightarrow> [(a, b)] | _ \<Rightarrow> []) ys ts))
      = {(a, b). (Some a, Some b) \<in> set (zip ys ts)}"
    by (auto split: option.splits prod.splits)
  then show ?thesis by (simp add: group_keys_def)
qed

lemma group_keys_sorted: "distinct (group_keys ys ts)" "sorted (group_keys ys ts)"
  by (simp_all add: group_keys_def)

text \<open>
  C7, as stated, fails. The panel has the columns year, treated and region, so no required
  column is absent for the outcome \<open>region\<close>; but the mean of a column of labels is a
  TypeError of pandas, and the function raises it instead of returning group means.
\<close>

theorem parallel_trends_label_outcome_counterexample:
  "has_col cx_trends_panel ''year'' \<and> has_col cx_trends_panel ''treated''
   \<and> has_col cx_trends_panel ''region''
   \<and> compute_parallel_trends_data cx_trends_panel ''region'' = Inl TypeError"
  by (simp add: compute_parallel_trends_data_def cx_trends_panel_def has_col_def get_num_def)

text \<open>
  C7, amended. compute_parallel_trends_data raises ValueError if and only if one of the
  columns year, treated or the outcome column is absent. When none is absent and the outcome
  is a numeric column, it returns, without raising, the mean of the outcome for every pair
  (year, treated) that occurs in the panel, in ascending order of the pair.
  compute_treatment_intensity_distribution raises ValueError when year or the intensity
  column is absent.
\<close>

theorem column_presence_checks:
  "(compute_parallel_trends_data panel outcome = Inl ValueError
      \<longleftrightarrow> \<not> (has_col panel ''year'' \<and> has_col panel ''treated'' \<and> has_col panel outcome))
   \<and> (has_col panel ''year'' \<and> has_col panel ''treated'' \<and> has_col panel outcome
       \<and> outcome \<noteq> ''region''
      \<longrightarrow> (\<exists>yr tr vals grouped.
             get_num panel ''year'' = Inr yr \<and> get_num panel ''treated'' = Inr tr
           \<and> get_num panel outcome = Inr vals
           \<and> compute_parallel_trends_data panel outcome = Inr grouped
           \<and> get_num grouped ''mean''
               = Inr (map (\<lambda>k. series_mean (group_values k yr tr vals)) (group_keys yr tr))
           \<and> set (group_keys yr tr) = {(a, b). (Some a, Some b) \<in> set (zip yr tr)}
           \<and> distinct (group_keys yr tr) \<and> sorted (group_keys yr tr)))
   \<and> (\<not> (has_col panel ''year'' \<and> has_col panel intensity_col)
      \<longrightarrow> compute_treatment_intensity_distribution panel y intensity_col = Inl ValueError)"
proof -
  let ?all = "has_col panel ''year'' \<and> has_col panel ''treated'' \<and> has_col panel outcome"
  have missing: "filter (\<lambda>c. \<not> has_col panel c) [''year'', ''treated'', outcome] \<noteq> []
      \<longleftrightarrow> \<not> ?all"
    by auto
  have absent: "compute_parallel_trends_data panel outcome = Inl ValueError" if "\<not> ?all"
    using that missing by (simp add: compute_parallel_trends_data_def Let_def del: filter.simps)
  have label: "compute_parallel_trends_data panel outcome = Inl TypeError"
    if all: "?all" "outcome = ''region''"
  proof -
    obtain yr tr where "get_num panel ''year'' = Inr yr" "get_num panel ''treated'' = Inr tr"
      using all has_col_get_num [of "''year''" panel] has_col_get_num [of "''treated''" panel]
      by auto
    with all missing show ?thesis
      by (simp add: compute_parallel_trends_data_def Let_def del: filter.simps)
  qed
  have numeric: "\<exists>yr tr vals grouped.
             get_num panel ''year'' = Inr yr \<and> get_num panel ''treated'' = Inr tr
           \<and> get_num panel outcome = Inr vals
           \<and> compute_parallel_trends_data panel outcome = Inr grouped
           \<and> get_num grouped ''mean''
               = Inr (map (\<lambda>k. series_mean (group_values k yr tr vals)) (group_keys yr tr))
           \<and> set (group_keys yr tr) = {(a, b). (Some a, Some b) \<in> set (zip yr tr)}
           \<and> distinct (group_keys yr tr) \<and> sorted (group_keys yr tr)"
    if all: "?all" "outcome \<noteq> ''region''"
  proof -
    obtain yr tr vals where cols: "get_num panel ''year'' = Inr yr"
      "get_num panel ''treated'' = Inr tr" "get_num panel outcome = Inr vals"
      using all has_col_get_num [of "''year''" panel] has_col_get_num [of "''treated''" panel]
        has_col_get_num [of outcome panel]
      by auto
    let ?keys = "group_keys yr tr"
    let ?means = "map (\<lambda>k. series_mean (group_values k yr tr vals)) ?keys"
    let ?grouped = "\<lparr>region_col = None,
                       num_cols =
                         (if outcome = ''year'' then [] else [(''year'', map (\<lambda>k. Some (fst k)) ?keys)])
                         @ (if outcome = ''treated'' then []
                            else [(''treated'', map (\<lambda>k. Some (snd k)) ?keys)])
                         @ [(''mean'', ?means)]\<rparr>"
    have res: "compute_parallel_trends_data panel outcome = Inr ?grouped"
      using all missing cols
      by (simp add: compute_parallel_trends_data_def Let_def del: filter.simps)
    have mean: "get_num ?grouped ''mean'' = Inr ?means"
      by (simp add: get_num_def)
    show ?thesis
      using cols res mean group_keys_set [of yr tr] group_keys_sorted [of yr tr]
      by blast
  qed
  have raise_iff: "compute_parallel_trends_data panel outcome = Inl ValueError \<longleftrightarrow> \<not> ?all"
  proof (cases ?all)
    case False
    with absent show ?thesis by simp
  next
    case True
    show ?thesis
    proof (cases "outcome = ''region''")
      case True
      with \<open>?all\<close> label show ?thesis by simp
    next
      case False
      with \<open>?all\<close> numeric show ?thesis by auto
    qed
  qed
  have intensity: "compute_treatment_intensity_distribution panel y intensity_col = Inl ValueError"
    if "\<not> (has_col panel ''year'' \<and> has_col panel intensity_col)"
  proof -
    have "filter (\<lambda>c. \<not> has_col panel c) [''year'', intensity_col] \<noteq> []"
      using that by auto
    then show ?thesis
      by (simp add: compute_treatment_intensity_distribution_def Let_def del: filter.simps)
  qed
  show ?thesis using raise_iff numeric intensity by blast
qed


lemma cx_trends_panel_cols:
  "has_col cx_trends_panel ''year''" "has_col cx_trends_panel ''treated''"
  "has_col cx_trends_panel ''crime_rate_per_100k''"
  "\<not> has_col cx_trends_panel ''treatment_intensity''"
  "get_num cx_trends_panel ''year'' = Inr [Some 2015, Some 2015, Some 2015, Some 2016]"
  "get_num cx_trends_panel ''treated'' = Inr [Some 0, Some 0, Some 1, Some 1]"
  "get_num cx_trends_panel ''crime_rate_per_100k'' = Inr [Some 10, Some 20, Some 30, None]"
  by (simp_all add: cx_trends_panel_def has_col_def get_num_def)

lemma cx_trends_keys:
  "group_keys [Some 2015, Some 2015, Some 2015, Some 2016] [Some 0, Some 0, Some 1, Some 1]
     = [(2015, 0), (2015, 1), (2016, 1)]"
  by (simp add: group_keys_def less_eq_prod_def)

theorem column_presence_checks_witness:
  "has_col cx_trends_panel ''year'' \<and> has_col cx_trends_panel ''treated''
   \<and> has_col cx_trends_panel ''crime_rate_per_100k''
   \<and> \<not> has_col cx_trends_panel ''treatment_intensity''
   \<and> (\<exists>grouped. compute_parallel_trends_data cx_trends_panel ''crime_rate_per_100k'' = Inr grouped
         \<and> get_num grouped ''mean'' = Inr [Some 15, Some 30, None])
   \<and> compute_treatment_intensity_distribution cx_trends_panel 2016 ''treatment_intensity''
       = Inl ValueError"
proof -
  note inst = column_presence_checks
    [of cx_trends_panel "''crime_rate_per_100k''" "''treatment_intensity''" 2016]
  from inst cx_trends_panel_cols(1-3) obtain grouped where
    g: "compute_parallel_trends_data cx_trends_panel ''crime_rate_per_100k'' = Inr grouped"
       "get_num grouped ''mean''
         = Inr (map (\<lambda>k. series_mean
                      (group_values k [Some 2015, Some 2015, Some 2015, Some 2016]
                         [Some 0, Some 0, Some 1, Some 1] [Some 10, Some 20, Some 30, None]))
                 (group_keys [Some 2015, Some 2015, Some 2015, Some 2016]
                    [Some 0, Some 0, Some 1, Some 1]))"
    unfolding cx_trends_panel_cols(5-7) by auto
  have "get_num grouped ''mean'' = Inr [Some 15, Some 30, None]"
    unfolding g(2) cx_trends_keys by (simp add: series_mean_def group_values_def)
  moreover from inst cx_trends_panel_cols(4) have
    "compute_treatment_intensity_distribution cx_trends_panel 2016 ''treatment_intensity''
       = Inl ValueError"
    by blast
  ultimately show ?thesis using g(1) cx_trends_panel_cols(1-4) by blast
qed

end
